theory Spec2Isabelle
  imports Main
begin

section \<open>The WAL data model\<close>

text \<open>
  Go byte slices and strings are both modelled as \<open>string\<close> (a list of bytes).
  \<open>wal.CommitPosition\<close> is a string type (\<open>wal.CommitPosition("test-pos")\<close> in the
  tests); its \<open>IsEmpty\<close> is the comparison with the empty string.
\<close>

type_synonym bytes = string

type_synonym CommitPosition = string

definition IsEmpty :: "CommitPosition \<Rightarrow> bool" where
  "IsEmpty p = (p = [])"

text \<open>A column value is Go's \<open>any\<close>: one constructor per dynamic type the WAL carries.\<close>

datatype Value =
    VNull
  | VBool bool
  | VInt int
  | VFloat int int
  | VString string
  | VBytes bytes
  | VJson string

record Column =
  Name :: string
  Type :: string
  ColValue :: Value

record Data =
  Action :: string
  Schema :: string
  Table :: string
  Columns :: "Column list"

text \<open>\<open>wal.Event\<close>: a nil \<open>Data\<close> pointer is \<open>None\<close> (a keep-alive).\<close>

record Event =
  EvData :: "Data option"
  EvCommitPosition :: CommitPosition

section \<open>Errors and log records\<close>

datatype error =
    ContextCanceled
  | ErrText string
  | Wrap string error


datatype level = Debug | Warn | Error | Panic

type_synonym log_entry = "level \<times> string"

section \<open>Kafka messages and batches\<close>

text \<open>
  \<open>kafka.Message\<close>, reduced to the two fields the writer sets. A nil \<open>Value\<close> slice is
  \<open>None\<close>.
\<close>

record Message =
  Key :: bytes
  MsgValue :: "bytes option"

definition zero_Message :: Message where
  "zero_Message = \<lparr>Key = [], MsgValue = None\<rparr>"

record msg =
  kmsg :: Message
  pos :: CommitPosition

record msgBatch =
  msgs :: "Message list"
  lastPos :: CommitPosition
  totalBytes :: int

text \<open>
  Modelled from the spec: the helpers of \<open>msg\<close> and \<open>msgBatch\<close> (\<open>size\<close>,
  \<open>isKeepAlive\<close>, \<open>add\<close>, \<open>drain\<close>) are called by the writer but their file is
  not part of the sources. The spec: the pending batch is \<open>{msgs, total_bytes, last_pos}\<close>;
  a nil data denotes a keep-alive, which carries only a position; a batch of only
  keep-alives has zero messages and a non-empty last position; draining hands the
  pending batch over and leaves an empty one. The position kept is the one of the
  message added last (the field is \<open>lastPos\<close>), which is the maximum when the listener
  emits increasing positions.
\<close>

definition size_msg :: "msg \<Rightarrow> int" where
  "size_msg m = (case MsgValue (kmsg m) of None \<Rightarrow> 0 | Some v \<Rightarrow> int (length v))"

definition isKeepAlive :: "msg \<Rightarrow> bool" where
  "isKeepAlive m = (MsgValue (kmsg m) = None)"

definition empty_batch :: msgBatch where
  "empty_batch = \<lparr>msgs = [], lastPos = [], totalBytes = 0\<rparr>"

definition add :: "msgBatch \<Rightarrow> msg \<Rightarrow> msgBatch" where
  "add mb m =
     (if isKeepAlive m then mb\<lparr>lastPos := pos m\<rparr>
      else \<lparr>msgs = msgs mb @ [kmsg m], lastPos = pos m,
            totalBytes = totalBytes mb + size_msg m\<rparr>)"

text \<open>\<open>drain\<close> returns the batch handed over and the emptied pending batch.\<close>

definition drain :: "msgBatch \<Rightarrow> msgBatch \<times> msgBatch" where
  "drain mb = (mb, empty_batch)"

section \<open>The batch writer\<close>

text \<open>
  The collaborators of the writer are fields holding functions, as in the Go struct:
  the Kafka writer's \<open>WriteMessages\<close>, the optional checkpointer (a nil func is
  \<open>None\<close>) and the serialiser. Each returns \<open>None\<close> for a nil error.
\<close>

record BatchWriter =
  writer :: "Message list \<Rightarrow> error option"
  queueBytesCapacity :: int
  maxBatchBytes :: int
  maxBatchSize :: int
  sendFrequency :: int
  checkpointer :: "(CommitPosition list \<Rightarrow> error option) option"
  serialiser :: "Data \<Rightarrow> error + bytes"

record WriterConfig =
  BatchTimeout :: int
  BatchBytes :: int
  BatchSize :: int
  MaxQueueBytes :: int

definition defaultMaxQueueBytes :: int where
  "defaultMaxQueueBytes = 100 * 1024 * 1024"

text \<open>
  \<open>NewBatchWriter\<close>. \<open>kafka.NewWriter\<close> is outside the sources: its result is the
  parameter \<open>newWriter\<close>. The serialiser is \<open>json.Marshal\<close>, a parameter as well.
\<close>

definition NewBatchWriter ::
  "(WriterConfig \<Rightarrow> error + (Message list \<Rightarrow> error option)) \<Rightarrow> (Data \<Rightarrow> error + bytes) \<Rightarrow>
   WriterConfig \<Rightarrow> (CommitPosition list \<Rightarrow> error option) option \<Rightarrow> error + BatchWriter" where
  "NewBatchWriter newWriter marshal config cp =
     (if MaxQueueBytes config > 0 \<and> MaxQueueBytes config < BatchBytes config
      then Inl (ErrText ''max queue bytes must be equal or bigger than the batch bytes'')
      else
        let maxQueueBytes =
              (if MaxQueueBytes config > 0 then MaxQueueBytes config else defaultMaxQueueBytes)
        in case newWriter (config\<lparr>BatchTimeout := 10\<rparr>) of
             Inl err \<Rightarrow> Inl err
           | Inr wr \<Rightarrow>
               Inr \<lparr>writer = wr, queueBytesCapacity = maxQueueBytes,
                    maxBatchBytes = BatchBytes config, maxBatchSize = BatchSize config,
                    sendFrequency = BatchTimeout config, checkpointer = cp,
                    serialiser = marshal\<rparr>)"

subsection \<open>Sending one batch\<close>

text \<open>
  What the writer does to the outside, in order: bus writes and checkpoint calls (made
  by \<open>sendBatch\<close>), and the bytes acquired from and released to the semaphore.
\<close>

datatype effect =
    BusWrite "Message list"
  | Checkpoint "CommitPosition list"
  | Acquired int
  | Released int

text \<open>
  \<open>sendBatch\<close> returns its error, the effects and the log records. The debug line at
  its start is left out of the log.
\<close>

definition checkpoint_batch :: "BatchWriter \<Rightarrow> msgBatch \<Rightarrow> effect list \<times> log_entry list" where
  "checkpoint_batch w batch =
     (case checkpointer w of
        None \<Rightarrow> ([], [])
      | Some cp \<Rightarrow>
          if IsEmpty (lastPos batch) then ([], [])
          else (case cp [lastPos batch] of
                  Some err \<Rightarrow> ([Checkpoint [lastPos batch]],
                               [(Warn, ''kafka batch writer: error updating commit position'')])
                | None \<Rightarrow> ([Checkpoint [lastPos batch]], [])))"

definition sendBatch ::
  "BatchWriter \<Rightarrow> msgBatch \<Rightarrow> error option \<times> effect list \<times> log_entry list" where
  "sendBatch w batch =
     (if length (msgs batch) > 0 then
        (case writer w (msgs batch) of
           Some err \<Rightarrow>
             (Some (Wrap ''kafka batch writer: writing to kafka'' err),
              [BusWrite (msgs batch)], [(Error, ''failed to write to kafka'')])
         | None \<Rightarrow>
             (let (effs, logs) = checkpoint_batch w batch
              in (None, BusWrite (msgs batch) # effs, logs)))
      else
        (let (effs, logs) = checkpoint_batch w batch in (None, effs, logs)))"

subsection \<open>The routing key\<close>

text \<open>
  Modelled from the spec: \<open>processor.IsSchemaLogEvent\<close> is outside the sources. The
  spec: an event whose (schema, table) is (\<open>pgstream\<close>, \<open>schema_log\<close>) is a
  schema-log row.
\<close>

definition IsSchemaLogEvent :: "Data \<Rightarrow> bool" where
  "IsSchemaLogEvent d = (Schema d = ''pgstream'' \<and> Table d = ''schema_log'')"

text \<open>The \<open>%T\<close> of the panic message.\<close>

fun type_name :: "Value \<Rightarrow> string" where
  "type_name VNull = ''<nil>''"
| "type_name (VBool b) = ''bool''"
| "type_name (VInt i) = ''int64''"
| "type_name (VFloat m e) = ''float64''"
| "type_name (VString s) = ''string''"
| "type_name (VBytes b) = ''[]uint8''"
| "type_name (VJson j) = ''map[string]interface {}''"

text \<open>
  The loop of \<open>getMessageKey\<close> over the columns: it stops at the first column named
  \<open>schema_name\<close>, panicking (\<open>Inl\<close>) if its value is not a string. \<open>None\<close>: no such
  column.
\<close>

fun find_schema_name :: "Column list \<Rightarrow> (string + string) option" where
  "find_schema_name [] = None"
| "find_schema_name (col # cols) =
     (if Name col = ''schema_name'' then
        (case ColValue col of
           VString s \<Rightarrow> Some (Inr s)
         | v \<Rightarrow> Some (Inl (''schema_log schema_name received is not a string: '' @ type_name v)))
      else find_schema_name cols)"

text \<open>\<open>getMessageKey\<close>: \<open>Inl\<close> is a panic with its message, \<open>Inr\<close> the key bytes.\<close>

definition getMessageKey :: "Data \<Rightarrow> string + bytes" where
  "getMessageKey walData =
     (if IsSchemaLogEvent walData then
        (case find_schema_name (Columns walData) of
           Some (Inl p) \<Rightarrow> Inl p
         | Some (Inr schemaName) \<Rightarrow> Inr schemaName
         | None \<Rightarrow> Inl ''schema_log schema_name not found in columns'')
      else Inr (Schema walData))"

subsection \<open>The byte semaphore\<close>

text \<open>
  Modelled from the spec: \<open>synclib.WeightedSemaphore\<close> is outside the sources. The
  spec: a weighted semaphore of an integer capacity with \<open>try_acquire(n)\<close>
  (non-blocking), \<open>acquire(n)\<close> (blocks until available or cancellation; fails with
  \<open>RequestTooLarge\<close> when \<open>n\<close> exceeds the capacity) and \<open>release(n)\<close>.
\<close>

record semaphore =
  capacity :: int
  held :: int

definition TryAcquire :: "int \<Rightarrow> semaphore \<Rightarrow> semaphore option" where
  "TryAcquire n s = (if held s + n \<le> capacity s then Some (s\<lparr>held := held s + n\<rparr>) else None)"

definition Release :: "int \<Rightarrow> semaphore \<Rightarrow> semaphore" where
  "Release n s = s\<lparr>held := held s - n\<rparr>"

subsection \<open>Processing one WAL event\<close>

text \<open>
  How a call of \<open>ProcessWALEvent\<close> ends: it returns (\<open>None\<close> is a nil error) without
  touching the channel; or it has acquired the bytes and sends the message on the
  unbuffered channel, returning nil once the run loop has received it; or the
  non-blocking acquire failed and the call is suspended in the blocking \<open>Acquire\<close>.
\<close>

datatype pw_outcome =
    Returned "error option"
  | Published msg
  | Blocked msg

definition too_large_warning :: log_entry where
  "too_large_warning = (Warn, ''record too large'')"

definition queue_full_warning :: log_entry where
  "queue_full_warning = (Warn, ''kafka batch writer: max queue bytes reached, processing blocked'')"

text \<open>The second half of \<open>ProcessWALEvent\<close>: from the semaphore to the channel.\<close>

definition enqueue :: "semaphore \<Rightarrow> msg \<Rightarrow> pw_outcome \<times> semaphore \<times> log_entry list" where
  "enqueue sema kafkaMsg =
     (case TryAcquire (size_msg kafkaMsg) sema of
        Some sema' \<Rightarrow> (Published kafkaMsg, sema', [])
      | None \<Rightarrow>
          if size_msg kafkaMsg > capacity sema
          then (Returned (Some (ErrText ''RequestTooLarge'')), sema, [queue_full_warning])
          else (Blocked kafkaMsg, sema, [queue_full_warning]))"

text \<open>
  \<open>ProcessWALEvent\<close>. A panic of \<open>getMessageKey\<close> is caught by the deferred
  \<open>recover\<close>, logged at panic level and turned into the returned error.
\<close>

definition ProcessWALEvent ::
  "BatchWriter \<Rightarrow> semaphore \<Rightarrow> Event \<Rightarrow> pw_outcome \<times> semaphore \<times> log_entry list" where
  "ProcessWALEvent w sema walEvent =
     (case EvData walEvent of
        None \<Rightarrow> enqueue sema \<lparr>kmsg = zero_Message, pos = EvCommitPosition walEvent\<rparr>
      | Some d \<Rightarrow>
          (case serialiser w d of
             Inl err \<Rightarrow> (Returned (Some (Wrap ''marshalling event'' err)), sema, [])
           | Inr walDataBytes \<Rightarrow>
               if int (length walDataBytes) > maxBatchBytes w
               then (Returned None, sema, [too_large_warning])
               else
                 (case getMessageKey d of
                    Inl r \<Rightarrow>
                      (Returned (Some (ErrText (''kafka batch writer: understanding event: '' @ r))),
                       sema, [(Panic, ''[PANIC] Panic while processing replication event'')])
                  | Inr k \<Rightarrow>
                      enqueue sema
                        \<lparr>kmsg = \<lparr>Key = k, MsgValue = Some walDataBytes\<rparr>,
                         pos = EvCommitPosition walEvent\<rparr>)))"

section \<open>The writer at run time\<close>

text \<open>
  \<open>Send\<close> runs two goroutines, the run loop and the sender, beside the listener that
  calls \<open>ProcessWALEvent\<close>. They meet on unbuffered channels, so the model is a state
  of the three and a step per scheduling choice.
\<close>

datatype listener_state =
    Idle
  | InAcquire msg
  | InSend msg

datatype loop_status =
    Running
  | Exited error
  | Stuck

record system =
  sema :: semaphore
  listener :: listener_state
  returns :: "error option list"
  pending :: msgBatch
  loop :: loop_status
  inflight :: "msgBatch option"
  sender_running :: bool
  sendErrChan :: "error option"
  emitted :: "msgBatch list"
  effects :: "effect list"
  logs :: "log_entry list"

text \<open>
  \<open>listener\<close>: \<open>InAcquire m\<close> is a call of \<open>ProcessWALEvent\<close> suspended in the blocking
  \<open>Acquire\<close>, \<open>InSend m\<close> one that holds its bytes and waits on \<open>msgChan\<close>;
  \<open>returns\<close> are the results of the finished calls. \<open>pending\<close> is the run loop's
  \<open>msgBatch\<close>; \<open>Stuck\<close> is the run loop blocked for ever on \<open>batchChan\<close>.
  \<open>inflight\<close> is the batch the sender has received and not yet sent; \<open>emitted\<close> are
  the batches the run loop has drained, in order.
\<close>

definition init :: "BatchWriter \<Rightarrow> system" where
  "init w =
     \<lparr>sema = \<lparr>capacity = queueBytesCapacity w, held = 0\<rparr>, listener = Idle, returns = [],
      pending = empty_batch, loop = Running, inflight = None, sender_running = True,
      sendErrChan = None, emitted = [], effects = [], logs = []\<rparr>"

text \<open>
  The body of the sender goroutine for the batch it holds: \<open>sendBatch\<close>, then the
  release of the batch's bytes, then, on an error, the error goes to \<open>sendErrChan\<close>
  and the goroutine returns.
\<close>

definition sender_done :: "BatchWriter \<Rightarrow> system \<Rightarrow> system" where
  "sender_done w s =
     (case inflight s of
        None \<Rightarrow> s
      | Some batch \<Rightarrow>
          (let (err, effs, lg) = sendBatch w batch
           in s\<lparr>inflight := None,
                sema := Release (totalBytes batch) (sema s),
                effects := effects s @ effs @ [Released (totalBytes batch)],
                logs := logs s @ lg,
                sendErrChan := (case err of None \<Rightarrow> sendErrChan s | Some e \<Rightarrow> Some e),
                sender_running := (sender_running s \<and> err = None)\<rparr>))"

text \<open>
  \<open>batchChan <- batch\<close>: the channel is unbuffered, so the send waits for the sender to
  finish the batch it holds; if the sender has returned, the run loop stays blocked.
\<close>

definition hand_over :: "BatchWriter \<Rightarrow> system \<Rightarrow> msgBatch \<Rightarrow> system" where
  "hand_over w s batch =
     (let s1 = (sender_done w s)\<lparr>emitted := emitted s @ [batch]\<rparr>
      in if sender_running s1 then s1\<lparr>inflight := Some batch\<rparr> else s1\<lparr>loop := Stuck\<rparr>)"

text \<open>The \<open>ticker.C\<close> case of the run loop.\<close>

definition on_tick :: "BatchWriter \<Rightarrow> system \<Rightarrow> system" where
  "on_tick w s = (let (batch, rest) = drain (pending s) in hand_over w (s\<lparr>pending := rest\<rparr>) batch)"

text \<open>
  The \<open>msgChan\<close> case of the run loop. The receive completes the listener's send, so
  its \<open>ProcessWALEvent\<close> returns nil. The pending batch is drained before the message
  is added to it; if the run loop blocks on \<open>batchChan\<close>, the message is never added.
\<close>

definition must_drain :: "BatchWriter \<Rightarrow> msgBatch \<Rightarrow> msg \<Rightarrow> bool" where
  "must_drain w mb m =
     (totalBytes mb + size_msg m \<ge> maxBatchBytes w \<or>
      int (length (msgs mb)) = maxBatchSize w \<or> isKeepAlive m)"

definition on_msg :: "BatchWriter \<Rightarrow> system \<Rightarrow> msg \<Rightarrow> system" where
  "on_msg w s m =
     (let s0 = s\<lparr>listener := Idle, returns := returns s @ [None]\<rparr>;
          s1 = (if must_drain w (pending s0) m
                then (let (batch, rest) = drain (pending s0)
                      in hand_over w (s0\<lparr>pending := rest\<rparr>) batch)
                else s0)
      in if loop s1 = Stuck then s1 else s1\<lparr>pending := add (pending s1) m\<rparr>)"

text \<open>A call of \<open>ProcessWALEvent\<close> by the listener.\<close>

definition on_call :: "BatchWriter \<Rightarrow> system \<Rightarrow> Event \<Rightarrow> system" where
  "on_call w s ev =
     (let (outcome, sema', lg) = ProcessWALEvent w (sema s) ev;
          s1 = s\<lparr>logs := logs s @ lg\<rparr>
      in case outcome of
           Returned r \<Rightarrow> s1\<lparr>returns := returns s1 @ [r]\<rparr>
         | Published m \<Rightarrow>
             s1\<lparr>sema := sema', listener := InSend m,
                effects := effects s1 @ [Acquired (size_msg m)]\<rparr>
         | Blocked m \<Rightarrow> s1\<lparr>listener := InAcquire m\<rparr>)"

text \<open>The blocking \<open>Acquire\<close> of a suspended call goes through once the bytes fit.\<close>

definition on_grant :: "system \<Rightarrow> msg \<Rightarrow> system" where
  "on_grant s m =
     (case TryAcquire (size_msg m) (sema s) of
        None \<Rightarrow> s
      | Some sema' \<Rightarrow>
          s\<lparr>sema := sema', listener := InSend m,
            effects := effects s @ [Acquired (size_msg m)]\<rparr>)"

text \<open>
  Cancellation of the context: the run loop returns \<open>ctx.Err()\<close>, and a call suspended
  in \<open>Acquire\<close> returns it as well.
\<close>

definition on_cancel :: "system \<Rightarrow> system" where
  "on_cancel s =
     (let s1 = (case listener s of
                  InAcquire m \<Rightarrow>
                    s\<lparr>listener := Idle, returns := returns s @ [Some ContextCanceled]\<rparr>
                | _ \<Rightarrow> s)
      in if loop s1 = Running then s1\<lparr>loop := Exited ContextCanceled\<rparr> else s1)"

datatype sched =
    Call Event
  | Grant
  | Recv
  | Tick
  | SenderDone
  | SendErr
  | CtxDone

text \<open>
  One scheduling choice. A choice that is not enabled (a call while the listener is
  inside one, a receive with nobody sending, a case of a run loop that has returned or
  is blocked) leaves the state as it is.
\<close>

fun step :: "BatchWriter \<Rightarrow> system \<Rightarrow> sched \<Rightarrow> system" where
  "step w s (Call ev) = (if listener s = Idle then on_call w s ev else s)"
| "step w s Grant = (case listener s of InAcquire m \<Rightarrow> on_grant s m | _ \<Rightarrow> s)"
| "step w s Recv =
     (if loop s = Running then (case listener s of InSend m \<Rightarrow> on_msg w s m | _ \<Rightarrow> s) else s)"
| "step w s Tick = (if loop s = Running then on_tick w s else s)"
| "step w s SenderDone = sender_done w s"
| "step w s SendErr =
     (if loop s = Running then
        (case sendErrChan s of
           None \<Rightarrow> s
         | Some sendErr \<Rightarrow> s\<lparr>loop := Exited sendErr, sendErrChan := None\<rparr>)
      else s)"
| "step w s CtxDone = on_cancel s"

fun run :: "BatchWriter \<Rightarrow> system \<Rightarrow> sched list \<Rightarrow> system" where
  "run w s [] = s"
| "run w s (e # es) = run w (step w s e) es"

text \<open>The sums of the bytes acquired and released in a trace of effects.\<close>

fun sum_acquire :: "effect list \<Rightarrow> int" where
  "sum_acquire [] = 0"
| "sum_acquire (Acquired n # es) = n + sum_acquire es"
| "sum_acquire (e # es) = sum_acquire es"

fun sum_release :: "effect list \<Rightarrow> int" where
  "sum_release [] = 0"
| "sum_release (Released n # es) = n + sum_release es"
| "sum_release (e # es) = sum_release es"

section \<open>The listeners\<close>

subsection \<open>The bus listener\<close>







subsection \<open>The replication listener\<close>



















section \<open>The store retrier of the search indexer\<close>

datatype Severity = SeverityDataLoss | SeverityRetriable

record Document =
  ID :: string
  DocSchema :: string
  DocVersion :: int
  DocData :: "(string \<times> Value) list"
  Delete :: bool

record DocumentError =
  DocErrDocument :: Document
  DocErrSeverity :: Severity
  DocErrError :: string

text \<open>
  The store: \<open>send_documents(attempt, docs)\<close> returns a transport error or the list
  of the documents that failed. A call of the store is the pair of its arguments.
\<close>

type_synonym Store = "nat \<Rightarrow> Document list \<Rightarrow> error + DocumentError list"

type_synonym store_call = "nat \<times> Document list"

definition retriable :: "DocumentError list \<Rightarrow> DocumentError list" where
  "retriable failed = filter (\<lambda>e. DocErrSeverity e = SeverityRetriable) failed"

definition dataloss :: "DocumentError list \<Rightarrow> DocumentError list" where
  "dataloss failed = filter (\<lambda>e. DocErrSeverity e = SeverityDataLoss) failed"

text \<open>
  Modelled from the spec: \<open>StoreRetrier.SendDocuments\<close> is outside the sources; only
  its test \<open>TestStoreRetrier_SendDocuments\<close> is there. The spec: call the store; on a
  transport error retry under the backoff until success or exhaustion, and exhaustion
  returns that error; partition the returned document errors by severity; the
  \<open>DataLoss\<close> errors are terminal and accumulate into the final report, the
  \<open>Retriable\<close> errors form the next input set; repeat with only the retriable subset
  until it is empty or the backoff is exhausted; the list returned is the retriable
  errors that remain followed by the accumulated data-loss errors. One backoff bounds
  the store calls of a batch by \<open>1 + max_retries\<close>. The first argument of
  \<open>send_loop\<close> after the store is the number of retries left, the second the number of
  the attempt, as the store sees it. The second component of the result lists the
  calls made to the store, in order.
\<close>

fun send_loop ::
  "Store \<Rightarrow> nat \<Rightarrow> nat \<Rightarrow> Document list \<Rightarrow> DocumentError list \<Rightarrow>
   (error + DocumentError list) \<times> store_call list" where
  "send_loop store 0 i docs acc =
     (case store i docs of
        Inl err \<Rightarrow> (Inl err, [(i, docs)])
      | Inr failed \<Rightarrow> (Inr (retriable failed @ acc @ dataloss failed), [(i, docs)]))"
| "send_loop store (Suc n) i docs acc =
     (case store i docs of
        Inl err \<Rightarrow> (let (res, calls) = send_loop store n (Suc i) docs acc
                    in (res, (i, docs) # calls))
      | Inr failed \<Rightarrow>
          if retriable failed = [] then (Inr (acc @ dataloss failed), [(i, docs)])
          else (let (res, calls) =
                      send_loop store n (Suc i) (map DocErrDocument (retriable failed))
                        (acc @ dataloss failed)
                in (res, (i, docs) # calls)))"

definition SendDocuments ::
  "Store \<Rightarrow> nat \<Rightarrow> Document list \<Rightarrow> (error + DocumentError list) \<times> store_call list" where
  "SendDocuments store max_retries docs = send_loop store max_retries 1 docs []"

text \<open>
  What the store answered to a call, and the relation between the calls of a run that
  the specification asks for: each call after the first is the next attempt and sends
  exactly the documents of the retriable errors of the call before.
\<close>

definition failed_of :: "Store \<Rightarrow> store_call \<Rightarrow> DocumentError list" where
  "failed_of store c = (case store (fst c) (snd c) of Inl err \<Rightarrow> [] | Inr failed \<Rightarrow> failed)"

fun resend_ok :: "Store \<Rightarrow> store_call list \<Rightarrow> bool" where
  "resend_ok store (c # c' # cs) =
     (retriable (failed_of store c) \<noteq> [] \<and> fst c' = Suc (fst c) \<and>
      snd c' = map DocErrDocument (retriable (failed_of store c)) \<and>
      resend_ok store (c' # cs))"
| "resend_ok store cs = True"

text \<open>A document that has errors in an answer of the store, all of them \<open>DataLoss\<close>.\<close>

definition dataloss_only :: "DocumentError list \<Rightarrow> Document \<Rightarrow> bool" where
  "dataloss_only failed d =
     (d \<in> set (map DocErrDocument failed) \<and>
      (\<forall>e\<in>set failed. DocErrDocument e = d \<longrightarrow> DocErrSeverity e = SeverityDataLoss))"

text \<open>The fixtures of the test and the store of its case with data loss.\<close>

definition newTestDocument :: "string \<Rightarrow> Document" where
  "newTestDocument i =
     \<lparr>ID = i, DocSchema = ''test_schema'', DocVersion = 1, DocData = [], Delete = False\<rparr>"

definition testDocs :: "Document list" where
  "testDocs = [newTestDocument ''1'', newTestDocument ''2'', newTestDocument ''3'']"

definition failedDocs :: "Severity \<Rightarrow> DocumentError list" where
  "failedDocs severity =
     [\<lparr>DocErrDocument = newTestDocument ''1'', DocErrSeverity = severity,
       DocErrError = ''oh noes''\<rparr>]"

definition lossy_store :: Store where
  "lossy_store i docs =
     (if i = 1 then
        Inr [\<lparr>DocErrDocument = newTestDocument ''2'', DocErrSeverity = SeverityDataLoss,
              DocErrError = ''oh noes''\<rparr>,
             \<lparr>DocErrDocument = newTestDocument ''1'', DocErrSeverity = SeverityRetriable,
              DocErrError = ''oh noes''\<rparr>]
      else Inr [])"

definition dropping_store :: Store where
  "dropping_store i docs =
     (if i = 1 then Inr (failedDocs SeverityDataLoss @ failedDocs SeverityRetriable)
      else if i = 2 \<or> i = 3 then Inr (failedDocs SeverityRetriable)
      else Inl (ErrText ''sendDocumentsFn: unexpected call''))"

section \<open>Notions of the specification\<close>

text \<open>
  The \<open>schema_name\<close> column of an event, in the words of the specification: the first
  column of that name, if any. A schema-log event is malformed when that column is
  missing or its value is not a string.
\<close>

definition schema_name_column :: "Data \<Rightarrow> Column option" where
  "schema_name_column d = find (\<lambda>c. Name c = ''schema_name'') (Columns d)"

definition malformed_schema_log :: "Data \<Rightarrow> bool" where
  "malformed_schema_log d =
     (IsSchemaLogEvent d \<and>
      (case schema_name_column d of
         None \<Rightarrow> True
       | Some col \<Rightarrow> (case ColValue col of VString s \<Rightarrow> False | _ \<Rightarrow> True)))"

section \<open>Concrete configurations and inputs\<close>

text \<open>
  A serialiser for the examples: the payload of an event is its table name, so the
  size of a payload is chosen by the name.
\<close>

definition test_serialiser :: "Data \<Rightarrow> error + bytes" where
  "test_serialiser d = Inr (Table d)"

definition test_writer :: BatchWriter where
  "test_writer =
     \<lparr>writer = (\<lambda>ms. None), queueBytesCapacity = 104857600, maxBatchBytes = 1024,
      maxBatchSize = 100, sendFrequency = 50, checkpointer = Some (\<lambda>ps. None),
      serialiser = test_serialiser\<rparr>"

definition event_of_size :: "nat \<Rightarrow> CommitPosition \<Rightarrow> Event" where
  "event_of_size n p =
     \<lparr>EvData = Some \<lparr>Action = ''I'', Schema = ''public'', Table = replicate n CHR ''x'',
                     Columns = []\<rparr>,
      EvCommitPosition = p\<rparr>"

definition keep_alive :: "CommitPosition \<Rightarrow> Event" where
  "keep_alive p = \<lparr>EvData = None, EvCommitPosition = p\<rparr>"

definition failing_checkpointer :: "CommitPosition list \<Rightarrow> error option" where
  "failing_checkpointer ps = Some (ErrText ''commit failed'')"

definition failing_bus :: "Message list \<Rightarrow> error option" where
  "failing_bus ms = Some (ErrText ''broker down'')"

definition test_batch :: msgBatch where
  "test_batch =
     \<lparr>msgs = [\<lparr>Key = ''public'', MsgValue = Some ''x''\<rparr>], lastPos = ''0/1'', totalBytes = 1\<rparr>"

definition keep_alive_batch :: msgBatch where
  "keep_alive_batch = \<lparr>msgs = [], lastPos = ''0/2'', totalBytes = 0\<rparr>"

definition schema_log_data :: "Column list \<Rightarrow> Data" where
  "schema_log_data cols =
     \<lparr>Action = ''I'', Schema = ''pgstream'', Table = ''schema_log'', Columns = cols\<rparr>"

definition C10_newWriter :: "WriterConfig \<Rightarrow> error + (Message list \<Rightarrow> error option)" where
  "C10_newWriter config = Inr (\<lambda>ms. None)"

definition C10_config_small :: WriterConfig where
  "C10_config_small = \<lparr>BatchTimeout = 50, BatchBytes = 1024, BatchSize = 100, MaxQueueBytes = 512\<rparr>"

definition C10_config_unset :: WriterConfig where
  "C10_config_unset = \<lparr>BatchTimeout = 50, BatchBytes = 1024, BatchSize = 100, MaxQueueBytes = 0\<rparr>"

definition C10_config_set :: WriterConfig where
  "C10_config_set = \<lparr>BatchTimeout = 50, BatchBytes = 1024, BatchSize = 100, MaxQueueBytes = 4096\<rparr>"

definition C10_config_negative :: WriterConfig where
  "C10_config_negative =
     \<lparr>BatchTimeout = 50, BatchBytes = 1024, BatchSize = 100, MaxQueueBytes = - 1\<rparr>"

definition C10_config_large_batch :: WriterConfig where
  "C10_config_large_batch =
     \<lparr>BatchTimeout = 50, BatchBytes = 209715200, BatchSize = 100, MaxQueueBytes = 0\<rparr>"

definition C10_writer_unset :: BatchWriter where
  "C10_writer_unset =
     \<lparr>writer = (\<lambda>ms. None), queueBytesCapacity = 104857600, maxBatchBytes = 1024,
      maxBatchSize = 100, sendFrequency = 50, checkpointer = None,
      serialiser = test_serialiser\<rparr>"

definition C5_event :: "Column list \<Rightarrow> Event" where
  "C5_event cols = \<lparr>EvData = Some (schema_log_data cols), EvCommitPosition = ''0/1''\<rparr>"

definition C5_writer :: BatchWriter where
  "C5_writer = test_writer\<lparr>serialiser := (\<lambda>d. Inr (replicate 2048 CHR ''x''))\<rparr>"

definition C5_int_column :: Column where
  "C5_int_column = \<lparr>Name = ''schema_name'', Type = ''int8'', ColValue = VInt 7\<rparr>"

definition C5_text_column :: Column where
  "C5_text_column = \<lparr>Name = ''schema_name'', Type = ''text'', ColValue = VString ''public''\<rparr>"

definition C6_writer :: BatchWriter where
  "C6_writer = test_writer\<lparr>checkpointer := Some failing_checkpointer\<rparr>"

definition bus_down_writer :: BatchWriter where
  "bus_down_writer = test_writer\<lparr>writer := failing_bus\<rparr>"

definition C6_state :: "BatchWriter \<Rightarrow> system" where
  "C6_state w = (init w)\<lparr>inflight := Some test_batch\<rparr>"

text \<open>
  The bounds of a batch, and the invariant of the run that carries them: every batch
  drained so far and the pending batch are within the bounds, and a message the
  listener is about to publish is not larger than \<open>maxBatchBytes\<close>.
\<close>

definition batch_ok :: "BatchWriter \<Rightarrow> msgBatch \<Rightarrow> bool" where
  "batch_ok w b = (totalBytes b \<le> maxBatchBytes w \<and> int (length (msgs b)) \<le> maxBatchSize w)"

definition admitted :: "BatchWriter \<Rightarrow> listener_state \<Rightarrow> bool" where
  "admitted w l = (case l of Idle \<Rightarrow> True | InAcquire m \<Rightarrow> size_msg m \<le> maxBatchBytes w
      | InSend m \<Rightarrow> size_msg m \<le> maxBatchBytes w)"

definition bounds_inv :: "BatchWriter \<Rightarrow> system \<Rightarrow> bool" where
  "bounds_inv w s = ((\<forall>b\<in>set (emitted s). batch_ok w b) \<and> batch_ok w (pending s) \<and>
      admitted w (listener s))"

definition C1_writer :: BatchWriter where
  "C1_writer = test_writer\<lparr>maxBatchBytes := 8\<rparr>"

definition C1_message :: Message where
  "C1_message = \<lparr>Key = ''public'', MsgValue = Some (replicate 8 CHR ''x'')\<rparr>"

definition C1_unset_writer :: BatchWriter where
  "C1_unset_writer = test_writer\<lparr>maxBatchSize := 0\<rparr>"

definition C1_negative_writer :: BatchWriter where
  "C1_negative_writer = test_writer\<lparr>maxBatchBytes := - 1\<rparr>"

text \<open>
  The bytes of the batch in flight, of the message waiting on the channel and of the
  batches drained so far, and the invariant that accounts for the semaphore.
\<close>

definition inflight_bytes :: "system \<Rightarrow> int" where
  "inflight_bytes s = (case inflight s of None \<Rightarrow> 0 | Some b \<Rightarrow> totalBytes b)"

definition insend_bytes :: "system \<Rightarrow> int" where
  "insend_bytes s = (case listener s of InSend m \<Rightarrow> size_msg m | _ \<Rightarrow> 0)"

definition emitted_bytes :: "system \<Rightarrow> int" where
  "emitted_bytes s = sum_list (map totalBytes (emitted s))"

definition acct_inv :: "system \<Rightarrow> bool" where
  "acct_inv s =
     (held (sema s) = sum_acquire (effects s) - sum_release (effects s) \<and>
      sum_release (effects s) \<le> emitted_bytes s - inflight_bytes s \<and>
      (loop s \<noteq> Stuck \<longrightarrow> sum_release (effects s) = emitted_bytes s - inflight_bytes s) \<and>
      emitted_bytes s + totalBytes (pending s) + insend_bytes s \<le> sum_acquire (effects s) \<and>
      (loop s \<noteq> Stuck \<longrightarrow>
         sum_acquire (effects s) = emitted_bytes s + totalBytes (pending s) + insend_bytes s) \<and>
      0 \<le> totalBytes (pending s) \<and> 0 \<le> inflight_bytes s)"

definition C3_state :: system where
  "C3_state =
     run test_writer (init test_writer)
       [Call (event_of_size 100 ''0/1''), Recv, Call (keep_alive ''0/2'')]"

section \<open>Unfolding the model\<close>

lemmas sys_defs = init_def on_call_def on_msg_def on_tick_def on_grant_def on_cancel_def
  hand_over_def sender_done_def sendBatch_def checkpoint_batch_def ProcessWALEvent_def
  enqueue_def TryAcquire_def Release_def drain_def add_def must_drain_def size_msg_def
  isKeepAlive_def empty_batch_def zero_Message_def getMessageKey_def IsSchemaLogEvent_def
  IsEmpty_def

lemmas test_defs = test_writer_def test_serialiser_def event_of_size_def keep_alive_def
  failing_checkpointer_def failing_bus_def test_batch_def keep_alive_batch_def
  schema_log_data_def

section \<open>What the sender leaves alone\<close>

lemma sender_done_frame:
  "emitted (sender_done w s) = emitted s" "pending (sender_done w s) = pending s"
  "listener (sender_done w s) = listener s"
  by (auto simp: sender_done_def split: option.splits prod.splits)

lemma hand_over_frame:
  "emitted (hand_over w s b) = emitted s @ [b]" "pending (hand_over w s b) = pending s"
  "listener (hand_over w s b) = listener s"
  by (auto simp: hand_over_def Let_def sender_done_frame)

section \<open>Construction (C10)\<close>

text \<open>
  C10, as stated, fails: \<open>NewBatchWriter\<close> compares \<open>MaxQueueBytes\<close> with
  \<open>BatchBytes\<close> only when \<open>MaxQueueBytes\<close> is positive. A configuration with
  \<open>MaxQueueBytes = -1\<close>, strictly smaller than \<open>BatchBytes = 1024\<close>, constructs a
  writer without an error; and one that leaves \<open>MaxQueueBytes\<close> unset with a
  \<open>BatchBytes\<close> of 200 MiB constructs a writer whose queue (100 MiB) is smaller than
  its batches.
\<close>

theorem C10_counterexample:
  "MaxQueueBytes C10_config_negative < BatchBytes C10_config_negative \<and>
   NewBatchWriter C10_newWriter test_serialiser C10_config_negative None = Inr C10_writer_unset \<and>
   MaxQueueBytes C10_config_large_batch < BatchBytes C10_config_large_batch \<and>
   NewBatchWriter C10_newWriter test_serialiser C10_config_large_batch None =
     Inr (C10_writer_unset\<lparr>maxBatchBytes := 209715200\<rparr>) \<and>
   queueBytesCapacity (C10_writer_unset\<lparr>maxBatchBytes := 209715200\<rparr>) <
     maxBatchBytes (C10_writer_unset\<lparr>maxBatchBytes := 209715200\<rparr>)"
  by (simp add: C10_config_negative_def C10_config_large_batch_def NewBatchWriter_def
      C10_newWriter_def C10_writer_unset_def defaultMaxQueueBytes_def)

text \<open>
  C10, amended. For every writer configuration, a \<open>MaxQueueBytes\<close> that is set
  (positive) and strictly smaller than \<open>BatchBytes\<close> makes \<open>NewBatchWriter\<close> fail with
  an error, so that a writer constructed with a positive \<open>MaxQueueBytes\<close> has that
  capacity, not below its \<open>maxBatchBytes\<close>; and when \<open>MaxQueueBytes\<close> is not set (zero,
  or not positive) no comparison with \<open>BatchBytes\<close> is made and every writer that is
  constructed has a semaphore capacity of 100 MiB = 104857600 bytes.
\<close>

theorem C10_NewBatchWriter_queue_bytes:
  "(0 < MaxQueueBytes config \<and> MaxQueueBytes config < BatchBytes config \<longrightarrow>
      (\<exists>err. NewBatchWriter newWriter marshal config cp = Inl err)) \<and>
   (0 < MaxQueueBytes config \<and> NewBatchWriter newWriter marshal config cp = Inr w \<longrightarrow>
      queueBytesCapacity w = MaxQueueBytes config \<and> maxBatchBytes w \<le> queueBytesCapacity w) \<and>
   (MaxQueueBytes config \<le> 0 \<and> NewBatchWriter newWriter marshal config cp = Inr w \<longrightarrow>
      queueBytesCapacity w = 104857600)"
  by (auto simp: NewBatchWriter_def defaultMaxQueueBytes_def Let_def split: sum.splits if_splits)

theorem C10_NewBatchWriter_queue_bytes_witness:
  "(\<exists>err. NewBatchWriter C10_newWriter test_serialiser C10_config_small None = Inl err) \<and>
   NewBatchWriter C10_newWriter test_serialiser C10_config_set None =
     Inr (C10_writer_unset\<lparr>queueBytesCapacity := 4096\<rparr>) \<and>
   NewBatchWriter C10_newWriter test_serialiser C10_config_unset None = Inr C10_writer_unset \<and>
   queueBytesCapacity C10_writer_unset = 104857600"
proof -
  have small: "0 < MaxQueueBytes C10_config_small \<and>
      MaxQueueBytes C10_config_small < BatchBytes C10_config_small"
    by (simp add: C10_config_small_def)
  have set: "0 < MaxQueueBytes C10_config_set \<and>
      NewBatchWriter C10_newWriter test_serialiser C10_config_set None =
        Inr (C10_writer_unset\<lparr>queueBytesCapacity := 4096\<rparr>)"
    by (simp add: C10_config_set_def NewBatchWriter_def C10_newWriter_def
        C10_writer_unset_def defaultMaxQueueBytes_def)
  have unset: "MaxQueueBytes C10_config_unset \<le> 0 \<and>
      NewBatchWriter C10_newWriter test_serialiser C10_config_unset None = Inr C10_writer_unset"
    by (simp add: C10_config_unset_def NewBatchWriter_def C10_newWriter_def
        C10_writer_unset_def defaultMaxQueueBytes_def)
  from small unset set
    C10_NewBatchWriter_queue_bytes [of C10_config_small C10_newWriter test_serialiser None]
    C10_NewBatchWriter_queue_bytes [of C10_config_set C10_newWriter test_serialiser None
      "C10_writer_unset\<lparr>queueBytesCapacity := 4096\<rparr>"]
    C10_NewBatchWriter_queue_bytes [of C10_config_unset C10_newWriter test_serialiser None
      C10_writer_unset]
  show ?thesis by blast
qed

section \<open>Records that are too large (C2)\<close>

text \<open>
  C2. For every WAL event whose serialised payload is larger than \<open>maxBatchBytes\<close>,
  \<open>ProcessWALEvent\<close> logs the warning, leaves the semaphore as it was (nothing is
  acquired), publishes nothing and returns nil; and the call leaves the writer in the
  state it had, apart from the log and the list of results, so that a later event is
  processed as if the large one had not been there.
\<close>

theorem C2_too_large_dropped:
  "EvData ev = Some d \<and> serialiser w d = Inr b \<and> int (length b) > maxBatchBytes w \<longrightarrow>
     ProcessWALEvent w sm ev = (Returned None, sm, [too_large_warning]) \<and>
     (listener s = Idle \<longrightarrow>
        step w s (Call ev) =
          s\<lparr>logs := logs s @ [too_large_warning], returns := returns s @ [None]\<rparr>)"
  by (auto simp: ProcessWALEvent_def on_call_def)

theorem C2_too_large_dropped_witness:
  "ProcessWALEvent test_writer (sema (init test_writer)) (event_of_size 2048 ''0/1'') =
     (Returned None, sema (init test_writer), [too_large_warning]) \<and>
   step test_writer (init test_writer) (Call (event_of_size 2048 ''0/1'')) =
     (init test_writer)\<lparr>logs := [too_large_warning], returns := [None]\<rparr>"
proof -
  have h: "EvData (event_of_size 2048 ''0/1'') =
        Some \<lparr>Action = ''I'', Schema = ''public'', Table = replicate 2048 CHR ''x'',
              Columns = []\<rparr> \<and>
      serialiser test_writer
        \<lparr>Action = ''I'', Schema = ''public'', Table = replicate 2048 CHR ''x'', Columns = []\<rparr> =
        Inr (replicate 2048 CHR ''x'') \<and>
      int (length (replicate 2048 CHR ''x'')) > maxBatchBytes test_writer"
    by (simp add: test_defs)
  have i: "listener (init test_writer) = Idle" "logs (init test_writer) = []"
    "returns (init test_writer) = []"
    by (simp_all add: init_def)
  from h i C2_too_large_dropped [where ev = "event_of_size 2048 ''0/1''" and w = test_writer
      and d = "\<lparr>Action = ''I'', Schema = ''public'', Table = replicate 2048 CHR ''x'',
              Columns = []\<rparr>"
      and b = "replicate 2048 CHR ''x''" and sm = "sema (init test_writer)"
      and s = "init test_writer"]
  show ?thesis by simp
qed

section \<open>Batches of keep-alives (C4)\<close>

text \<open>
  C4. For every batch with zero messages and a non-empty last position, \<open>sendBatch\<close>
  of a writer that has a checkpointer makes no bus write, calls the checkpointer with
  exactly that position and returns nil; and for every batch with an empty last
  position \<open>sendBatch\<close> makes no checkpoint call.
\<close>

theorem C4_keep_alive_batch_checkpoints:
  "(msgs batch = [] \<and> \<not> IsEmpty (lastPos batch) \<and> checkpointer w = Some cp \<longrightarrow>
      fst (sendBatch w batch) = None \<and>
      fst (snd (sendBatch w batch)) = [Checkpoint [lastPos batch]]) \<and>
   (IsEmpty (lastPos batch) \<longrightarrow>
      (\<forall>ps. Checkpoint ps \<notin> set (fst (snd (sendBatch w batch)))))"
  by (auto simp: sendBatch_def checkpoint_batch_def split: option.splits)

theorem C4_keep_alive_batch_checkpoints_witness:
  "fst (sendBatch test_writer keep_alive_batch) = None \<and>
   fst (snd (sendBatch test_writer keep_alive_batch)) = [Checkpoint [''0/2'']] \<and>
   (\<forall>ps. Checkpoint ps \<notin> set (fst (snd (sendBatch test_writer empty_batch))))"
proof -
  have h: "msgs keep_alive_batch = [] \<and> \<not> IsEmpty (lastPos keep_alive_batch) \<and>
      checkpointer test_writer = Some (\<lambda>ps. None) \<and> lastPos keep_alive_batch = ''0/2''"
    by (simp add: test_defs IsEmpty_def)
  have e: "IsEmpty (lastPos empty_batch)"
    by (simp add: empty_batch_def IsEmpty_def)
  from h e C4_keep_alive_batch_checkpoints [of keep_alive_batch test_writer "\<lambda>ps. None"]
    C4_keep_alive_batch_checkpoints [of empty_batch test_writer "\<lambda>ps. None"]
  show ?thesis by (simp add: IsEmpty_def)
qed

section \<open>The routing key (C5)\<close>

lemma find_schema_name_find:
  "find_schema_name cols =
     (case find (\<lambda>c. Name c = ''schema_name'') cols of
        None \<Rightarrow> None
      | Some col \<Rightarrow>
          (case ColValue col of
             VString s \<Rightarrow> Some (Inr s)
           | v \<Rightarrow> Some (Inl (''schema_log schema_name received is not a string: '' @ type_name v))))"
  by (induction cols) (auto split: Value.splits)

lemma malformed_panics: "malformed_schema_log d \<Longrightarrow> \<exists>r. getMessageKey d = Inl r"
  unfolding malformed_schema_log_def getMessageKey_def schema_name_column_def
  by (auto simp: find_schema_name_find split: option.splits Value.splits)




text \<open>
  C5, as stated, fails: a schema-log event without a \<open>schema_name\<close> column whose
  payload (2048 bytes) is larger than \<open>maxBatchBytes\<close> (1024) is dropped with the
  too-large warning, and \<open>ProcessWALEvent\<close> returns nil, before the key is computed.
\<close>

theorem C5_counterexample:
  "malformed_schema_log (schema_log_data []) \<and>
   ProcessWALEvent C5_writer (sema (init C5_writer)) (C5_event []) =
     (Returned None, sema (init C5_writer), [too_large_warning])"
  by (simp add: malformed_schema_log_def schema_name_column_def C5_event_def C5_writer_def
      sys_defs test_defs)

text \<open>
  C5, amended. For every event that is not a schema-log event the routing key is the
  event's schema name; for every schema-log event whose \<open>schema_name\<close> column holds a
  string the routing key is that string; and for a schema-log event whose
  \<open>schema_name\<close> column is missing or not a string \<open>ProcessWALEvent\<close> never
  publishes a message (nor waits for the semaphore), and, when the payload was
  serialised and is not larger than \<open>maxBatchBytes\<close>, it returns the error made from
  the recovered panic, with the semaphore untouched and the panic logged.
\<close>

theorem C5_routing_key:
  "(\<not> IsSchemaLogEvent d \<longrightarrow> getMessageKey d = Inr (Schema d)) \<and>
   (IsSchemaLogEvent d \<and> schema_name_column d = Some col \<and> ColValue col = VString s \<longrightarrow>
      getMessageKey d = Inr s) \<and>
   (malformed_schema_log d \<and> EvData ev = Some d \<longrightarrow>
      (\<forall>m. fst (ProcessWALEvent w sm ev) \<noteq> Published m \<and>
           fst (ProcessWALEvent w sm ev) \<noteq> Blocked m) \<and>
      (\<forall>b. serialiser w d = Inr b \<and> int (length b) \<le> maxBatchBytes w \<longrightarrow>
         (\<exists>r. getMessageKey d = Inl r \<and>
            ProcessWALEvent w sm ev =
              (Returned (Some (ErrText (''kafka batch writer: understanding event: '' @ r))), sm,
               [(Panic, ''[PANIC] Panic while processing replication event'')]))))"
proof (intro conjI impI)
  assume "\<not> IsSchemaLogEvent d"
  then show "getMessageKey d = Inr (Schema d)"
    by (simp add: getMessageKey_def)
next
  assume "IsSchemaLogEvent d \<and> schema_name_column d = Some col \<and> ColValue col = VString s"
  then show "getMessageKey d = Inr s"
    by (simp add: getMessageKey_def find_schema_name_find schema_name_column_def)
next
  assume a: "malformed_schema_log d \<and> EvData ev = Some d"
  then obtain r where "getMessageKey d = Inl r"
    using malformed_panics by blast
  with a show "\<forall>m. fst (ProcessWALEvent w sm ev) \<noteq> Published m \<and>
           fst (ProcessWALEvent w sm ev) \<noteq> Blocked m"
    by (auto simp: ProcessWALEvent_def split: sum.splits)
next
  assume a: "malformed_schema_log d \<and> EvData ev = Some d"
  then obtain r where "getMessageKey d = Inl r"
    using malformed_panics by blast
  with a show "\<forall>b. serialiser w d = Inr b \<and> int (length b) \<le> maxBatchBytes w \<longrightarrow>
         (\<exists>r. getMessageKey d = Inl r \<and>
            ProcessWALEvent w sm ev =
              (Returned (Some (ErrText (''kafka batch writer: understanding event: '' @ r))), sm,
               [(Panic, ''[PANIC] Panic while processing replication event'')]))"
    by (auto simp: ProcessWALEvent_def split: sum.splits)
qed

theorem C5_routing_key_witness:
  "getMessageKey \<lparr>Action = ''I'', Schema = ''public'', Table = ''users'', Columns = []\<rparr> =
     Inr ''public'' \<and>
   getMessageKey (schema_log_data [C5_text_column]) = Inr ''public'' \<and>
   ProcessWALEvent test_writer (sema (init test_writer)) (C5_event []) =
     (Returned (Some (ErrText (''kafka batch writer: understanding event: '' @
          ''schema_log schema_name not found in columns''))), sema (init test_writer),
      [(Panic, ''[PANIC] Panic while processing replication event'')]) \<and>
   ProcessWALEvent test_writer (sema (init test_writer)) (C5_event [C5_int_column]) =
     (Returned (Some (ErrText (''kafka batch writer: understanding event: '' @
          ''schema_log schema_name received is not a string: int64''))), sema (init test_writer),
      [(Panic, ''[PANIC] Panic while processing replication event'')])"
proof -
  let ?plain = "\<lparr>Action = ''I'', Schema = ''public'', Table = ''users'', Columns = []\<rparr>"
  have p: "\<not> IsSchemaLogEvent ?plain"
    by (simp add: IsSchemaLogEvent_def)
  have t: "IsSchemaLogEvent (schema_log_data [C5_text_column]) \<and>
      schema_name_column (schema_log_data [C5_text_column]) = Some C5_text_column \<and>
      ColValue C5_text_column = VString ''public''"
    by (simp add: IsSchemaLogEvent_def schema_log_data_def schema_name_column_def
        C5_text_column_def)
  have m0: "malformed_schema_log (schema_log_data []) \<and>
      EvData (C5_event []) = Some (schema_log_data [])"
    by (simp add: malformed_schema_log_def IsSchemaLogEvent_def schema_log_data_def
        schema_name_column_def C5_event_def)
  have m1: "malformed_schema_log (schema_log_data [C5_int_column]) \<and>
      EvData (C5_event [C5_int_column]) = Some (schema_log_data [C5_int_column])"
    by (simp add: malformed_schema_log_def IsSchemaLogEvent_def schema_log_data_def
        schema_name_column_def C5_event_def C5_int_column_def)
  have s0: "serialiser test_writer (schema_log_data []) = Inr ''schema_log'' \<and>
      int (length ''schema_log'') \<le> maxBatchBytes test_writer"
    by (simp add: test_defs)
  have s1: "serialiser test_writer (schema_log_data [C5_int_column]) = Inr ''schema_log'' \<and>
      int (length ''schema_log'') \<le> maxBatchBytes test_writer"
    by (simp add: test_defs)
  have k0: "getMessageKey (schema_log_data []) = Inl ''schema_log schema_name not found in columns''"
    by (simp add: getMessageKey_def IsSchemaLogEvent_def schema_log_data_def)
  have k1: "getMessageKey (schema_log_data [C5_int_column]) =
      Inl ''schema_log schema_name received is not a string: int64''"
    by (simp add: getMessageKey_def IsSchemaLogEvent_def schema_log_data_def C5_int_column_def)
  from p C5_routing_key [where d = ?plain]
  have c1: "getMessageKey ?plain = Inr (Schema ?plain)" by blast
  from t C5_routing_key [where d = "schema_log_data [C5_text_column]" and col = C5_text_column
      and s = "''public''"]
  have c2: "getMessageKey (schema_log_data [C5_text_column]) = Inr ''public''" by blast
  from m0 s0 k0 C5_routing_key [where d = "schema_log_data []" and ev = "C5_event []" and w = test_writer
      and sm = "sema (init test_writer)"]
  have c3: "ProcessWALEvent test_writer (sema (init test_writer)) (C5_event []) =
     (Returned (Some (ErrText (''kafka batch writer: understanding event: '' @
          ''schema_log schema_name not found in columns''))), sema (init test_writer),
      [(Panic, ''[PANIC] Panic while processing replication event'')])"
    by (metis sum.inject(1))
  from m1 s1 k1 C5_routing_key [where d = "schema_log_data [C5_int_column]"
      and ev = "C5_event [C5_int_column]" and w = test_writer
      and sm = "sema (init test_writer)"]
  have c4: "ProcessWALEvent test_writer (sema (init test_writer)) (C5_event [C5_int_column]) =
     (Returned (Some (ErrText (''kafka batch writer: understanding event: '' @
          ''schema_log schema_name received is not a string: int64''))), sema (init test_writer),
      [(Panic, ''[PANIC] Panic while processing replication event'')])"
    by (metis sum.inject(1))
  from c1 c2 c3 c4 show ?thesis by simp
qed

section \<open>Failures of the sender (C6)\<close>

text \<open>
  C6, as stated, fails: with a checkpointer that returns an error, \<open>sendBatch\<close>
  writes the batch, calls the checkpointer, logs a warning and returns nil; the sender
  keeps running, the error channel stays empty and the run loop keeps running.
\<close>

theorem C6_counterexample:
  "failing_checkpointer [lastPos test_batch] = Some (ErrText ''commit failed'') \<and>
   sendBatch C6_writer test_batch =
     (None, [BusWrite (msgs test_batch), Checkpoint [lastPos test_batch]],
      [(Warn, ''kafka batch writer: error updating commit position'')]) \<and>
   sender_running (step C6_writer (C6_state C6_writer) SenderDone) \<and>
   sendErrChan (step C6_writer (C6_state C6_writer) SenderDone) = None \<and>
   loop (run C6_writer (C6_state C6_writer) [SenderDone, SendErr]) = Running"
  by (simp add: C6_writer_def C6_state_def sys_defs test_defs)

text \<open>
  C6, amended. When the checkpointer call made after a successful (or skipped) bus
  write fails, \<open>sendBatch\<close> logs a warning and returns nil: the sender keeps running
  and nothing reaches the error channel. It is the failure of the bus write that ends
  the sender: \<open>sendBatch\<close> returns the wrapped error, the sender puts it on the error
  channel and returns, and the run loop, on reading the channel, returns that error.
\<close>

theorem C6_checkpoint_failure_not_fatal:
  "(checkpointer w = Some cp \<and> cp [lastPos batch] = Some e \<and> \<not> IsEmpty (lastPos batch) \<and>
      (msgs batch = [] \<or> writer w (msgs batch) = None) \<and> inflight s = Some batch \<longrightarrow>
        fst (sendBatch w batch) = None \<and>
        snd (snd (sendBatch w batch)) =
          [(Warn, ''kafka batch writer: error updating commit position'')] \<and>
        sender_running (sender_done w s) = sender_running s \<and>
        sendErrChan (sender_done w s) = sendErrChan s \<and>
        loop (sender_done w s) = loop s) \<and>
   (msgs batch \<noteq> [] \<and> writer w (msgs batch) = Some e \<and> inflight s = Some batch \<and>
      loop s = Running \<longrightarrow>
        fst (sendBatch w batch) = Some (Wrap ''kafka batch writer: writing to kafka'' e) \<and>
        \<not> sender_running (sender_done w s) \<and>
        sendErrChan (sender_done w s) = Some (Wrap ''kafka batch writer: writing to kafka'' e) \<and>
        loop (step w (sender_done w s) SendErr) =
          Exited (Wrap ''kafka batch writer: writing to kafka'' e))"
  by (auto simp: sendBatch_def checkpoint_batch_def sender_done_def split: option.splits)

theorem C6_checkpoint_failure_not_fatal_witness:
  "fst (sendBatch C6_writer test_batch) = None \<and>
   sender_running (sender_done C6_writer (C6_state C6_writer)) \<and>
   sendErrChan (sender_done C6_writer (C6_state C6_writer)) = None \<and>
   loop (sender_done C6_writer (C6_state C6_writer)) = Running \<and>
   \<not> sender_running (sender_done bus_down_writer (C6_state bus_down_writer)) \<and>
   loop (step bus_down_writer (sender_done bus_down_writer (C6_state bus_down_writer))
      SendErr) = Exited (Wrap ''kafka batch writer: writing to kafka'' (ErrText ''broker down''))"
proof -
  have a: "checkpointer C6_writer = Some failing_checkpointer \<and>
      failing_checkpointer [lastPos test_batch] = Some (ErrText ''commit failed'') \<and>
      \<not> IsEmpty (lastPos test_batch) \<and>
      (msgs test_batch = [] \<or> writer C6_writer (msgs test_batch) = None) \<and>
      inflight (C6_state C6_writer) = Some test_batch"
    by (simp add: C6_writer_def C6_state_def test_defs IsEmpty_def)
  have a': "sender_running (C6_state C6_writer) \<and> sendErrChan (C6_state C6_writer) = None \<and>
      loop (C6_state C6_writer) = Running"
    by (simp add: C6_state_def init_def)
  have b: "msgs test_batch \<noteq> [] \<and>
      writer bus_down_writer (msgs test_batch) = Some (ErrText ''broker down'') \<and>
      inflight (C6_state bus_down_writer) = Some test_batch \<and>
      loop (C6_state bus_down_writer) = Running"
    by (simp add: bus_down_writer_def C6_state_def test_defs init_def)
  from a a' C6_checkpoint_failure_not_fatal [where w = C6_writer and cp = failing_checkpointer
      and batch = test_batch and e = "ErrText ''commit failed''" and s = "C6_state C6_writer"]
  have c1: "fst (sendBatch C6_writer test_batch) = None \<and>
      sender_running (sender_done C6_writer (C6_state C6_writer)) \<and>
      sendErrChan (sender_done C6_writer (C6_state C6_writer)) = None \<and>
      loop (sender_done C6_writer (C6_state C6_writer)) = Running"
    by simp
  from b C6_checkpoint_failure_not_fatal [where w = bus_down_writer and batch = test_batch
      and e = "ErrText ''broker down''" and s = "C6_state bus_down_writer"]
  have c2: "\<not> sender_running (sender_done bus_down_writer (C6_state bus_down_writer)) \<and>
      loop (step bus_down_writer
        (sender_done bus_down_writer (C6_state bus_down_writer)) SendErr) =
      Exited (Wrap ''kafka batch writer: writing to kafka'' (ErrText ''broker down''))"
    by simp
  from c1 c2 show ?thesis by simp
qed

section \<open>Batch bounds (C1)\<close>

lemma enqueue_size:
  "enqueue sm m = (out, sm', lg) \<Longrightarrow> size_msg m \<le> maxBatchBytes w \<Longrightarrow>
   admitted w (case out of Returned r \<Rightarrow> Idle | Published m' \<Rightarrow> InSend m' | Blocked m' \<Rightarrow> InAcquire m')"
  by (auto simp: enqueue_def admitted_def split: option.splits if_splits)

lemma ProcessWALEvent_size:
  assumes "ProcessWALEvent w sm ev = (out, sm', lg)" "0 \<le> maxBatchBytes w"
  shows "admitted w (case out of Returned r \<Rightarrow> Idle | Published m' \<Rightarrow> InSend m' | Blocked m' \<Rightarrow> InAcquire m')"
  using assms
  by (auto simp: ProcessWALEvent_def size_msg_def zero_Message_def admitted_def
      split: option.splits sum.splits if_splits dest!: enqueue_size[where w = w])

lemma empty_ok: "0 \<le> maxBatchBytes w \<Longrightarrow> 1 \<le> maxBatchSize w \<Longrightarrow> batch_ok w empty_batch"
  by (simp add: batch_ok_def empty_batch_def)

lemma add_ok_fresh:
  "0 \<le> maxBatchBytes w \<Longrightarrow> 1 \<le> maxBatchSize w \<Longrightarrow> size_msg m \<le> maxBatchBytes w \<Longrightarrow>
   batch_ok w (add empty_batch m)"
  by (simp add: batch_ok_def empty_batch_def add_def)

lemma add_ok_more:
  "batch_ok w mb \<Longrightarrow> \<not> must_drain w mb m \<Longrightarrow> batch_ok w (add mb m)"
  by (auto simp: batch_ok_def add_def must_drain_def)

lemma step_bounds:
  assumes "0 \<le> maxBatchBytes w" "1 \<le> maxBatchSize w" "bounds_inv w s"
  shows "bounds_inv w (step w s e)"
proof (cases e)
  case (Call ev)
  obtain out sm' lg where p: "ProcessWALEvent w (sema s) ev = (out, sm', lg)"
    by (metis prod_cases3)
  from ProcessWALEvent_size [OF p assms(1)] assms(3) p Call show ?thesis
    by (auto simp: sender_done_frame hand_over_frame
        bounds_inv_def on_call_def admitted_def split: pw_outcome.splits)
next
  case Grant
  with assms(3) show ?thesis
    by (auto simp: sender_done_frame hand_over_frame
        bounds_inv_def on_grant_def admitted_def split: listener_state.splits option.splits)
next
  case Recv
  show ?thesis
  proof (cases "loop s = Running \<and> (\<exists>m. listener s = InSend m)")
    case False
    with Recv assms(3) show ?thesis by (auto split: listener_state.splits)
  next
    case True
    then obtain m where m: "listener s = InSend m" "loop s = Running" by blast
    with assms(3) have sz: "size_msg m \<le> maxBatchBytes w"
      by (simp add: bounds_inv_def admitted_def)
    from assms m sz Recv show ?thesis
      by (auto simp: sender_done_frame hand_over_frame
          bounds_inv_def on_msg_def Let_def drain_def admitted_def
          empty_ok add_ok_fresh add_ok_more)
  qed
next
  case Tick
  with assms show ?thesis
    by (auto simp: sender_done_frame hand_over_frame bounds_inv_def on_tick_def drain_def empty_ok)
next
  case SenderDone
  with assms(3) show ?thesis by (simp add: sender_done_frame bounds_inv_def)
next
  case SendErr
  with assms(3) show ?thesis by (auto simp: sender_done_frame hand_over_frame
      bounds_inv_def split: option.splits)
next
  case CtxDone
  with assms(3) show ?thesis
    by (auto simp: sender_done_frame hand_over_frame
        bounds_inv_def on_cancel_def Let_def admitted_def split: listener_state.splits)
qed

lemma run_bounds:
  "0 \<le> maxBatchBytes w \<Longrightarrow> 1 \<le> maxBatchSize w \<Longrightarrow> bounds_inv w s \<Longrightarrow> bounds_inv w (run w s es)"
  by (induction es arbitrary: s) (simp_all add: step_bounds)

lemma init_bounds: "0 \<le> maxBatchBytes w \<Longrightarrow> 1 \<le> maxBatchSize w \<Longrightarrow> bounds_inv w (init w)"
  by (simp add: bounds_inv_def init_def empty_ok admitted_def)

text \<open>
  C1, as stated, fails for a writer whose \<open>maxBatchSize\<close> is 0 (the value of a
  configuration that does not set it): the count trigger compares with \<open>==\<close>, so the
  first message is added to a batch that already has \<open>maxBatchSize\<close> messages, and
  the batch drained at the next tick has one message. It also fails for a negative
  \<open>maxBatchBytes\<close>, where the empty batch of a tick has more bytes than allowed.
\<close>

theorem C1_counterexample:
  "maxBatchSize C1_unset_writer = 0 \<and>
   length (msgs (last (emitted (run C1_unset_writer (init C1_unset_writer)
      [Call (event_of_size 100 ''0/1''), Recv, Tick])))) = 1 \<and>
   maxBatchBytes C1_negative_writer = - 1 \<and>
   totalBytes (last (emitted (run C1_negative_writer (init C1_negative_writer) [Tick]))) = 0"
  by (simp add: C1_unset_writer_def C1_negative_writer_def sys_defs test_defs)

text \<open>
  C1, amended. For a writer with \<open>maxBatchBytes \<ge> 0\<close> and \<open>maxBatchSize \<ge> 1\<close>, every
  batch the run loop drains (on a tick, on the size or count trigger, on a keep-alive),
  under every schedule of the listener, the run loop and the sender, has
  \<open>totalBytes \<le> maxBatchBytes\<close> and at most \<open>maxBatchSize\<close> messages. In particular a
  message admitted by \<open>ProcessWALEvent\<close> with a payload of exactly \<open>maxBatchBytes\<close>
  bytes starts a batch of its own, of exactly \<open>maxBatchBytes\<close> bytes.
\<close>

theorem C1_batch_bounds:
  "0 \<le> maxBatchBytes w \<and> 1 \<le> maxBatchSize w \<longrightarrow>
     (\<forall>b\<in>set (emitted (run w (init w) es)).
        totalBytes b \<le> maxBatchBytes w \<and> int (length (msgs b)) \<le> maxBatchSize w) \<and>
     (listener s = InSend m \<and> \<not> isKeepAlive m \<and> size_msg m = maxBatchBytes w \<and>
      0 \<le> totalBytes (pending s) \<and> loop s = Running \<and> sender_running s \<and>
      inflight s = None \<longrightarrow>
        pending (step w s Recv) =
          \<lparr>msgs = [kmsg m], lastPos = pos m, totalBytes = maxBatchBytes w\<rparr>)"
proof (intro impI conjI)
  assume "0 \<le> maxBatchBytes w \<and> 1 \<le> maxBatchSize w"
  then have "bounds_inv w (run w (init w) es)"
    by (simp add: run_bounds init_bounds)
  then show "\<forall>b\<in>set (emitted (run w (init w) es)).
        totalBytes b \<le> maxBatchBytes w \<and> int (length (msgs b)) \<le> maxBatchSize w"
    by (simp add: bounds_inv_def batch_ok_def)
next
  assume "listener s = InSend m \<and> \<not> isKeepAlive m \<and> size_msg m = maxBatchBytes w \<and>
      0 \<le> totalBytes (pending s) \<and> loop s = Running \<and> sender_running s \<and>
      inflight s = None"
  then show "pending (step w s Recv) =
          \<lparr>msgs = [kmsg m], lastPos = pos m, totalBytes = maxBatchBytes w\<rparr>"
    by (simp add: on_msg_def must_drain_def drain_def hand_over_def sender_done_def
        add_def empty_batch_def Let_def)
qed

theorem C1_batch_bounds_witness:
  "emitted (run C1_writer (init C1_writer) [Call (event_of_size 8 ''0/1''), Recv, Tick]) =
     [empty_batch, \<lparr>msgs = [C1_message], lastPos = ''0/1'', totalBytes = 8\<rparr>] \<and>
   totalBytes \<lparr>msgs = [C1_message], lastPos = ''0/1'', totalBytes = 8\<rparr> \<le> maxBatchBytes C1_writer \<and>
   int (length (msgs \<lparr>msgs = [C1_message], lastPos = ''0/1'', totalBytes = 8\<rparr>))
     \<le> maxBatchSize C1_writer \<and>
   pending (step C1_writer
      (step C1_writer (init C1_writer) (Call (event_of_size 8 ''0/1''))) Recv) =
     \<lparr>msgs = [C1_message], lastPos = ''0/1'', totalBytes = 8\<rparr>"
proof -
  let ?es = "[Call (event_of_size 8 ''0/1''), Recv, Tick]"
  let ?s = "step C1_writer (init C1_writer) (Call (event_of_size 8 ''0/1''))"
  let ?m = "\<lparr>kmsg = C1_message, pos = ''0/1''\<rparr>"
  have cfg: "0 \<le> maxBatchBytes C1_writer \<and> 1 \<le> maxBatchSize C1_writer"
    "maxBatchBytes C1_writer = 8"
    by (simp_all add: C1_writer_def test_defs)
  have em: "emitted (run C1_writer (init C1_writer) ?es) =
     [empty_batch, \<lparr>msgs = [C1_message], lastPos = ''0/1'', totalBytes = 8\<rparr>]"
    by (simp add: C1_writer_def C1_message_def sys_defs test_defs)
  have st: "listener ?s = InSend ?m \<and> \<not> isKeepAlive ?m \<and> size_msg ?m = maxBatchBytes C1_writer \<and>
      0 \<le> totalBytes (pending ?s) \<and> loop ?s = Running \<and> sender_running ?s \<and>
      inflight ?s = None"
    by (simp add: C1_writer_def C1_message_def sys_defs test_defs)
  from cfg em st C1_batch_bounds [where w = C1_writer and es = ?es and s = ?s and m = ?m]
  show ?thesis by (simp del: run.simps step.simps)
qed

section \<open>Byte accounting (C9)\<close>

lemma sum_acquire_append [simp]: "sum_acquire (xs @ ys) = sum_acquire xs + sum_acquire ys"
  by (induction xs rule: sum_acquire.induct) auto

lemma sum_release_append [simp]: "sum_release (xs @ ys) = sum_release xs + sum_release ys"
  by (induction xs rule: sum_release.induct) auto

lemma sendBatch_no_sema [simp]:
  "sum_acquire (fst (snd (sendBatch w b))) = 0" "sum_release (fst (snd (sendBatch w b))) = 0"
  by (auto simp: sendBatch_def checkpoint_batch_def split: option.splits)

lemma size_msg_nonneg [simp]: "0 \<le> size_msg m"
  by (simp add: size_msg_def split: option.splits)

lemma keep_alive_size [simp]: "isKeepAlive m \<Longrightarrow> size_msg m = 0"
  by (simp add: isKeepAlive_def size_msg_def)

lemma sender_done_acct [simp]:
  "sum_acquire (effects (sender_done w s)) = sum_acquire (effects s)"
  "sum_release (effects (sender_done w s)) = sum_release (effects s) + inflight_bytes s"
  "held (sema (sender_done w s)) = held (sema s) - inflight_bytes s"
  "inflight (sender_done w s) = None"
  "loop (sender_done w s) = loop s"
  by (auto simp: sender_done_def inflight_bytes_def Release_def split: option.splits prod.splits
      dest: arg_cong[where f="\<lambda>x. sum_acquire (fst (snd x))"] arg_cong[where f="\<lambda>x. sum_release (fst (snd x))"])

lemma hand_over_acct [simp]:
  "sum_acquire (effects (hand_over w s b)) = sum_acquire (effects s)"
  "sum_release (effects (hand_over w s b)) = sum_release (effects s) + inflight_bytes s"
  "held (sema (hand_over w s b)) = held (sema s) - inflight_bytes s"
  "inflight (hand_over w s b) = (if sender_running (sender_done w s) then Some b else None)"
  "loop (hand_over w s b) = (if sender_running (sender_done w s) then loop s else Stuck)"
  by (auto simp: hand_over_def Let_def)

lemma ProcessWALEvent_acct:
  "ProcessWALEvent w sm ev = (out, sm', lg) \<Longrightarrow>
     (case out of
        Published m \<Rightarrow> held sm' = held sm + size_msg m
      | _ \<Rightarrow> sm' = sm)"
  by (auto simp: ProcessWALEvent_def enqueue_def TryAcquire_def
      split: option.splits sum.splits if_splits)

lemma step_acct:
  assumes "acct_inv s"
  shows "acct_inv (step w s e)"
proof (cases e)
  case (Call ev)
  obtain out sm' lg where p: "ProcessWALEvent w (sema s) ev = (out, sm', lg)"
    by (metis prod_cases3)
  from ProcessWALEvent_acct [OF p] assms p Call show ?thesis
    by (auto simp: sender_done_frame hand_over_frame
        acct_inv_def on_call_def emitted_bytes_def inflight_bytes_def insend_bytes_def
        split: pw_outcome.splits)
next
  case Grant
  with assms show ?thesis
    by (auto simp: sender_done_frame hand_over_frame
        acct_inv_def on_grant_def TryAcquire_def emitted_bytes_def inflight_bytes_def
        insend_bytes_def split: listener_state.splits option.splits)
next
  case Recv
  with assms show ?thesis
    by (auto simp: sender_done_frame hand_over_frame
        acct_inv_def on_msg_def Let_def drain_def add_def empty_batch_def
        emitted_bytes_def inflight_bytes_def insend_bytes_def
        split: listener_state.splits)
next
  case Tick
  with assms show ?thesis
    by (auto simp: sender_done_frame hand_over_frame
        acct_inv_def on_tick_def drain_def empty_batch_def
        emitted_bytes_def inflight_bytes_def insend_bytes_def)
next
  case SenderDone
  with assms show ?thesis
    by (auto simp: sender_done_frame hand_over_frame
        acct_inv_def emitted_bytes_def inflight_bytes_def insend_bytes_def)
next
  case SendErr
  with assms show ?thesis
    by (auto simp: sender_done_frame hand_over_frame
        acct_inv_def emitted_bytes_def inflight_bytes_def insend_bytes_def
        split: option.splits)
next
  case CtxDone
  with assms show ?thesis
    by (auto simp: sender_done_frame hand_over_frame
        acct_inv_def on_cancel_def Let_def emitted_bytes_def inflight_bytes_def
        insend_bytes_def split: listener_state.splits)
qed

lemma run_acct: "acct_inv s \<Longrightarrow> acct_inv (run w s es)"
  by (induction es arbitrary: s) (simp_all add: step_acct)

lemma init_acct: "acct_inv (init w)"
  by (simp add: acct_inv_def init_def empty_batch_def emitted_bytes_def inflight_bytes_def
      insend_bytes_def)

text \<open>
  C9, as stated, fails at shutdown: an event of 100 bytes is acquired and received by
  the run loop, the context is cancelled before the next tick, and the run loop
  returns with the message in its pending batch. 100 bytes were acquired, none is ever
  released.
\<close>

theorem C9_counterexample:
  "loop (run test_writer (init test_writer)
      [Call (event_of_size 100 ''0/1''), Recv, CtxDone, SenderDone]) = Exited ContextCanceled \<and>
   sum_acquire (effects (run test_writer (init test_writer)
      [Call (event_of_size 100 ''0/1''), Recv, CtxDone, SenderDone])) = 100 \<and>
   sum_release (effects (run test_writer (init test_writer)
      [Call (event_of_size 100 ''0/1''), Recv, CtxDone, SenderDone])) = 0"
  by (simp add: sys_defs test_defs)

text \<open>
  C9, amended. Under every schedule, the bytes held by the semaphore are the bytes
  acquired minus the bytes released, and never negative. The sender releases the bytes
  of every batch it has finished exactly once, whether the send succeeded or failed:
  unless the run loop is blocked on a sender that has returned, the bytes released are
  those of the drained batches except the one in flight, and the bytes acquired and
  not released are exactly those of the pending batch, of the batch in flight and of
  the message waiting on the channel. So acquired and released bytes are equal at
  shutdown exactly when nothing is pending, in flight or waiting. A call of
  \<open>ProcessWALEvent\<close> that returns without publishing (a dropped record among them)
  leaves the semaphore as it was.
\<close>

theorem C9_byte_accounting:
  "held (sema (run w (init w) es)) =
     sum_acquire (effects (run w (init w) es)) - sum_release (effects (run w (init w) es)) \<and>
   sum_release (effects (run w (init w) es)) \<le> sum_acquire (effects (run w (init w) es)) \<and>
   (loop (run w (init w) es) \<noteq> Stuck \<longrightarrow>
      sum_release (effects (run w (init w) es)) =
        emitted_bytes (run w (init w) es) - inflight_bytes (run w (init w) es) \<and>
      sum_acquire (effects (run w (init w) es)) - sum_release (effects (run w (init w) es)) =
        totalBytes (pending (run w (init w) es)) + inflight_bytes (run w (init w) es) +
        insend_bytes (run w (init w) es)) \<and>
   (ProcessWALEvent w sm ev = (Returned r, sm', lg) \<longrightarrow> sm' = sm)"
proof -
  have inv: "acct_inv (run w (init w) es)"
    by (simp add: run_acct init_acct)
  have nonneg: "0 \<le> insend_bytes (run w (init w) es)"
    by (simp add: insend_bytes_def split: listener_state.splits)
  have ret: "ProcessWALEvent w sm ev = (Returned r, sm', lg) \<longrightarrow> sm' = sm"
    using ProcessWALEvent_acct [of w sm ev "Returned r" sm' lg] by simp
  from inv nonneg ret show ?thesis
    unfolding acct_inv_def by linarith
qed

theorem C9_byte_accounting_witness:
  "sum_acquire (effects (run test_writer (init test_writer)
      [Call (event_of_size 100 ''0/1''), Recv, Tick, SenderDone, CtxDone])) = 100 \<and>
   sum_release (effects (run test_writer (init test_writer)
      [Call (event_of_size 100 ''0/1''), Recv, Tick, SenderDone, CtxDone])) = 100 \<and>
   sum_release (effects (run bus_down_writer (init bus_down_writer)
      [Call (event_of_size 100 ''0/1''), Recv, Tick, SenderDone])) = 100 \<and>
   ProcessWALEvent test_writer (sema (init test_writer)) (event_of_size 2048 ''0/1'') =
     (Returned None, sema (init test_writer), [too_large_warning])"
proof -
  let ?es = "[Call (event_of_size 100 ''0/1''), Recv, Tick, SenderDone, CtxDone]"
  let ?fs = "[Call (event_of_size 100 ''0/1''), Recv, Tick, SenderDone]"
  let ?S = "run test_writer (init test_writer) ?es"
  let ?F = "run bus_down_writer (init bus_down_writer) ?fs"
  have a: "loop ?S \<noteq> Stuck" "totalBytes (pending ?S) = 0" "inflight_bytes ?S = 0"
    "insend_bytes ?S = 0" "sum_acquire (effects ?S) = 100"
    by (simp_all add: inflight_bytes_def insend_bytes_def sys_defs test_defs)
  have b: "loop ?F \<noteq> Stuck" "emitted_bytes ?F = 100" "inflight_bytes ?F = 0"
    by (simp_all add: bus_down_writer_def emitted_bytes_def inflight_bytes_def
        sys_defs test_defs)
  have c: "ProcessWALEvent test_writer (sema (init test_writer)) (event_of_size 2048 ''0/1'') =
     (Returned None, sema (init test_writer), [too_large_warning])"
    by (simp add: sys_defs test_defs)
  have t1: "loop ?S \<noteq> Stuck \<longrightarrow>
      sum_acquire (effects ?S) - sum_release (effects ?S) =
        totalBytes (pending ?S) + inflight_bytes ?S + insend_bytes ?S"
    using C9_byte_accounting [where w = test_writer and es = ?es
        and sm = "sema (init test_writer)" and ev = "event_of_size 2048 ''0/1''" and r = None
        and sm' = "sema (init test_writer)" and lg = "[too_large_warning]"]
    by blast
  have t2: "loop ?F \<noteq> Stuck \<longrightarrow>
      sum_release (effects ?F) = emitted_bytes ?F - inflight_bytes ?F"
    using C9_byte_accounting [where w = bus_down_writer and es = ?fs
        and sm = "sema (init test_writer)" and ev = "event_of_size 2048 ''0/1''" and r = None
        and sm' = "sema (init test_writer)" and lg = "[too_large_warning]"]
    by blast
  from a t1 have r1: "sum_release (effects ?S) = 100"
    by (simp del: run.simps step.simps)
  from b t2 have r2: "sum_release (effects ?F) = 100"
    by (simp del: run.simps step.simps)
  from a(5) r1 r2 c show ?thesis
    by (simp del: run.simps step.simps)
qed

section \<open>Keep-alives (C3)\<close>

text \<open>
  C3, as stated, fails: after one event of 100 bytes at position \<open>0/1\<close> and a keep-alive
  at position \<open>0/2\<close>, the batch drained on the keep-alive is the pending one, with the
  position of the event. Once the sender has finished it there is one bus write with
  one record and one checkpoint call, with \<open>[0/1]\<close>; the position of the keep-alive
  is in the new pending batch and no checkpoint has been issued for it.
\<close>

theorem C3_counterexample:
  "effects (run test_writer (init test_writer)
      [Call (event_of_size 100 ''0/1''), Recv, Call (keep_alive ''0/2''), Recv, SenderDone]) =
     [Acquired 100, Acquired 0,
      BusWrite [\<lparr>Key = ''public'', MsgValue = Some (replicate 100 CHR ''x'')\<rparr>],
      Checkpoint [''0/1''], Released 100] \<and>
   pending (run test_writer (init test_writer)
      [Call (event_of_size 100 ''0/1''), Recv, Call (keep_alive ''0/2''), Recv, SenderDone]) =
     \<lparr>msgs = [], lastPos = ''0/2'', totalBytes = 0\<rparr>"
  by (simp add: sys_defs test_defs)

text \<open>
  C3, amended. When the run loop receives a keep-alive with position X while the sender
  is idle, it drains the pending batch at once and hands it to the sender as it is,
  with that batch's own last position: the sender's bus write and checkpoint are those
  of the pending batch. The keep-alive then starts the new pending batch (no message,
  last position X), and the checkpoint with \<open>[X]\<close>, without a bus write, is issued
  when that batch is drained in its turn, at the next tick. For the sequence of one
  100-byte event and one keep-alive this gives one bus write with one record, a
  checkpoint with the position of the event and, after the tick, a checkpoint with
  \<open>[X]\<close>.
\<close>

theorem C3_keep_alive_drain:
  "listener s = InSend m \<and> isKeepAlive m \<and> loop s = Running \<and> sender_running s \<and>
   inflight s = None \<longrightarrow>
     emitted (step w s Recv) = emitted s @ [pending s] \<and>
     inflight (step w s Recv) = Some (pending s) \<and>
     pending (step w s Recv) = \<lparr>msgs = [], lastPos = pos m, totalBytes = 0\<rparr> \<and>
     effects (run w s [Recv, SenderDone]) =
       effects s @ fst (snd (sendBatch w (pending s))) @ [Released (totalBytes (pending s))] \<and>
     (checkpointer w = Some cp \<and> \<not> IsEmpty (pos m) \<and> fst (sendBatch w (pending s)) = None \<longrightarrow>
        effects (run w s [Recv, SenderDone, Tick, SenderDone]) =
          effects s @ fst (snd (sendBatch w (pending s))) @
          [Released (totalBytes (pending s)), Checkpoint [pos m], Released 0])"
proof (intro impI)
  assume a: "listener s = InSend m \<and> isKeepAlive m \<and> loop s = Running \<and> sender_running s \<and>
   inflight s = None"
  define s1 where "s1 = step w s Recv"
  from a have s1: "s1 = s\<lparr>listener := Idle, returns := returns s @ [None],
      pending := \<lparr>msgs = [], lastPos = pos m, totalBytes = 0\<rparr>,
      emitted := emitted s @ [pending s], inflight := Some (pending s)\<rparr>"
    unfolding s1_def
    by (simp add: on_msg_def must_drain_def drain_def hand_over_def sender_done_def add_def
        empty_batch_def Let_def)
  obtain err effs lg where sb: "sendBatch w (pending s) = (err, effs, lg)"
    by (metis prod_cases3)
  define s2 where "s2 = step w s1 SenderDone"
  have s2: "effects s2 = effects s @ effs @ [Released (totalBytes (pending s))]"
    "loop s2 = Running" "pending s2 = \<lparr>msgs = [], lastPos = pos m, totalBytes = 0\<rparr>"
    "inflight s2 = None" "sender_running s2 = (err = None)"
    using a sb unfolding s2_def s1 by (simp_all add: sender_done_def)
  have r2: "run w s [Recv, SenderDone] = s2"
    by (simp add: s2_def s1_def)
  have r4: "run w s [Recv, SenderDone, Tick, SenderDone] = run w s2 [Tick, SenderDone]"
    by (simp add: s2_def s1_def)
  have t: "checkpointer w = Some cp \<and> \<not> IsEmpty (pos m) \<and> err = None \<longrightarrow>
      effects (run w s2 [Tick, SenderDone]) = effects s2 @ [Checkpoint [pos m], Released 0]"
    using s2
    by (auto simp: on_tick_def drain_def hand_over_def sender_done_def sendBatch_def
        checkpoint_batch_def empty_batch_def Let_def split: option.splits)
  from s1 s2 sb r2 r4 t show "emitted (step w s Recv) = emitted s @ [pending s] \<and>
     inflight (step w s Recv) = Some (pending s) \<and>
     pending (step w s Recv) = \<lparr>msgs = [], lastPos = pos m, totalBytes = 0\<rparr> \<and>
     effects (run w s [Recv, SenderDone]) =
       effects s @ fst (snd (sendBatch w (pending s))) @ [Released (totalBytes (pending s))] \<and>
     (checkpointer w = Some cp \<and> \<not> IsEmpty (pos m) \<and> fst (sendBatch w (pending s)) = None \<longrightarrow>
        effects (run w s [Recv, SenderDone, Tick, SenderDone]) =
          effects s @ fst (snd (sendBatch w (pending s))) @
          [Released (totalBytes (pending s)), Checkpoint [pos m], Released 0])"
    unfolding s1_def [symmetric]
    by (simp del: run.simps step.simps)
qed

theorem C3_keep_alive_drain_witness:
  "effects (run test_writer C3_state [Recv, SenderDone]) =
     [Acquired 100, Acquired 0,
      BusWrite [\<lparr>Key = ''public'', MsgValue = Some (replicate 100 CHR ''x'')\<rparr>],
      Checkpoint [''0/1''], Released 100] \<and>
   effects (run test_writer C3_state [Recv, SenderDone, Tick, SenderDone]) =
     [Acquired 100, Acquired 0,
      BusWrite [\<lparr>Key = ''public'', MsgValue = Some (replicate 100 CHR ''x'')\<rparr>],
      Checkpoint [''0/1''], Released 100, Checkpoint [''0/2''], Released 0]"
proof -
  let ?m = "\<lparr>kmsg = zero_Message, pos = ''0/2''\<rparr>"
  have st: "listener C3_state = InSend ?m \<and> isKeepAlive ?m \<and> loop C3_state = Running \<and>
      sender_running C3_state \<and> inflight C3_state = None"
    by (simp add: C3_state_def sys_defs test_defs)
  have cp: "checkpointer test_writer = Some (\<lambda>ps. None) \<and> \<not> IsEmpty (pos ?m)"
    by (simp add: test_defs IsEmpty_def)
  have sb: "sendBatch test_writer (pending C3_state) =
      (None, [BusWrite [\<lparr>Key = ''public'', MsgValue = Some (replicate 100 CHR ''x'')\<rparr>],
              Checkpoint [''0/1'']], [])"
    "totalBytes (pending C3_state) = 100"
    "effects C3_state = [Acquired 100, Acquired 0]"
    by (simp_all add: C3_state_def sys_defs test_defs)
  from st cp sb C3_keep_alive_drain [where s = C3_state and m = ?m and w = test_writer
      and cp = "\<lambda>ps. None"]
  show ?thesis by (simp del: run.simps step.simps)
qed

section \<open>Processor errors in the listeners (C8)\<close>







section \<open>The store retrier (C7)\<close>

lemma send_loop_calls:
  "\<forall>j ds. i \<le> j \<and> j \<le> i + n \<longrightarrow> (\<exists>failed. store j ds = Inr failed) \<Longrightarrow>
   send_loop store n i docs acc = (res, calls) \<Longrightarrow>
     calls \<noteq> [] \<and> hd calls = (i, docs) \<and> length calls \<le> Suc n \<and> resend_ok store calls \<and>
     (length calls = Suc n \<or> retriable (failed_of store (last calls)) = []) \<and>
     res = Inr (retriable (failed_of store (last calls)) @ acc @
                concat (map (\<lambda>c. dataloss (failed_of store c)) calls))"
proof (induction n arbitrary: i docs acc res calls)
  case 0
  then obtain failed where "store i docs = Inr failed"
    by (metis add.right_neutral order_refl)
  with 0 show ?case by (auto simp: failed_of_def)
next
  case (Suc n)
  from Suc.prems(1) obtain failed where f: "store i docs = Inr failed"
    by (metis le_add1 order_refl)
  show ?case
  proof (cases "retriable failed = []")
    case True
    with f Suc.prems(2) show ?thesis by (auto simp: failed_of_def)
  next
    case False
    obtain res' calls' where r: "send_loop store n (Suc i)
        (map DocErrDocument (retriable failed)) (acc @ dataloss failed) = (res', calls')"
      by (metis surj_pair)
    have pre: "\<forall>j ds. Suc i \<le> j \<and> j \<le> Suc i + n \<longrightarrow> (\<exists>failed. store j ds = Inr failed)"
      using Suc.prems(1) by auto
    note ih = Suc.IH [OF pre r]
    from f False r Suc.prems(2) have eq: "res = res'" "calls = (i, docs) # calls'"
      by auto
    from ih obtain c cs where cs: "calls' = c # cs"
        "c = (Suc i, map DocErrDocument (retriable failed))"
      by (cases calls') auto
    from ih eq cs f False show ?thesis
      by (auto simp: failed_of_def)
  qed
qed

lemma resend_ok_nth:
  "resend_ok store cs \<Longrightarrow> Suc k < length cs \<Longrightarrow>
     retriable (failed_of store (cs ! k)) \<noteq> [] \<and>
     cs ! Suc k =
       (Suc (fst (cs ! k)), map DocErrDocument (retriable (failed_of store (cs ! k))))"
proof (induction store cs arbitrary: k rule: resend_ok.induct)
  case (1 store c c' cs)
  show ?case
  proof (cases k)
    case 0
    with 1 show ?thesis by (cases c') auto
  next
    case (Suc j)
    with 1 show ?thesis by auto
  qed
qed auto

lemma dataloss_only_not_retriable:
  "dataloss_only failed d \<Longrightarrow> d \<notin> set (map DocErrDocument (retriable failed))"
  by (auto simp: dataloss_only_def retriable_def)

text \<open>
  C7. For every batch of documents and every store that answers the attempts 1 to
  \<open>1 + max_retries\<close> without a transport error, \<open>SendDocuments\<close> first sends the whole
  batch; as long as the answer holds \<open>Retriable\<close> errors and retries are left it calls
  the store again, with the next attempt number and exactly the documents of the
  \<open>Retriable\<close> errors of the answer before, and it stops at the first answer without
  one or after \<open>1 + max_retries\<close> calls. A document whose errors in an answer are all
  \<open>DataLoss\<close> is not in the next call: data-loss errors are never sent again. The
  result is, with a nil error, the retriable errors of the last answer followed by the
  data-loss errors of all answers. For the documents 1, 2, 3, the answers
  \<open>[{1,DataLoss},{1,Retriable}]\<close>, then \<open>[{1,Retriable}]\<close> twice, and two retries, the
  result is \<open>[{1,Retriable},{1,DataLoss}]\<close>.
\<close>

theorem C7_retrier:
  "(\<forall>j ds. 1 \<le> j \<and> j \<le> Suc max_retries \<longrightarrow> (\<exists>failed. store j ds = Inr failed)) \<longrightarrow>
     hd (snd (SendDocuments store max_retries docs)) = (1, docs) \<and>
     0 < length (snd (SendDocuments store max_retries docs)) \<and>
     length (snd (SendDocuments store max_retries docs)) \<le> Suc max_retries \<and>
     (length (snd (SendDocuments store max_retries docs)) = Suc max_retries \<or>
      retriable (failed_of store (last (snd (SendDocuments store max_retries docs)))) = []) \<and>
     (\<forall>k. Suc k < length (snd (SendDocuments store max_retries docs)) \<longrightarrow>
        retriable (failed_of store (snd (SendDocuments store max_retries docs) ! k)) \<noteq> [] \<and>
        snd (SendDocuments store max_retries docs) ! Suc k =
          (Suc (fst (snd (SendDocuments store max_retries docs) ! k)),
           map DocErrDocument
             (retriable (failed_of store (snd (SendDocuments store max_retries docs) ! k)))) \<and>
        (\<forall>d. dataloss_only (failed_of store (snd (SendDocuments store max_retries docs) ! k)) d
           \<longrightarrow> d \<notin> set (snd (snd (SendDocuments store max_retries docs) ! Suc k)))) \<and>
     fst (SendDocuments store max_retries docs) =
       Inr (retriable (failed_of store (last (snd (SendDocuments store max_retries docs)))) @
            concat (map (\<lambda>c. dataloss (failed_of store c))
              (snd (SendDocuments store max_retries docs))))"
proof
  assume a: "\<forall>j ds. 1 \<le> j \<and> j \<le> Suc max_retries \<longrightarrow> (\<exists>failed. store j ds = Inr failed)"
  obtain res calls where r: "send_loop store max_retries 1 docs [] = (res, calls)"
    by (metis surj_pair)
  from a have "\<forall>j ds. 1 \<le> j \<and> j \<le> 1 + max_retries \<longrightarrow> (\<exists>failed. store j ds = Inr failed)"
    by simp
  note c = send_loop_calls [OF this r]
  have sd: "SendDocuments store max_retries docs = (res, calls)"
    using r by (simp add: SendDocuments_def)
  have nth: "\<forall>k. Suc k < length calls \<longrightarrow>
        retriable (failed_of store (calls ! k)) \<noteq> [] \<and>
        calls ! Suc k =
          (Suc (fst (calls ! k)), map DocErrDocument (retriable (failed_of store (calls ! k)))) \<and>
        (\<forall>d. dataloss_only (failed_of store (calls ! k)) d
           \<longrightarrow> d \<notin> set (snd (calls ! Suc k)))"
  proof (intro allI impI)
    fix k
    assume k: "Suc k < length calls"
    from c have "resend_ok store calls" by simp
    from resend_ok_nth [OF this k]
    show "retriable (failed_of store (calls ! k)) \<noteq> [] \<and>
        calls ! Suc k =
          (Suc (fst (calls ! k)), map DocErrDocument (retriable (failed_of store (calls ! k)))) \<and>
        (\<forall>d. dataloss_only (failed_of store (calls ! k)) d
           \<longrightarrow> d \<notin> set (snd (calls ! Suc k)))"
      using dataloss_only_not_retriable by auto
  qed
  from c have len: "0 < length calls" by simp
  from c len nth show "hd (snd (SendDocuments store max_retries docs)) = (1, docs) \<and>
     0 < length (snd (SendDocuments store max_retries docs)) \<and>
     length (snd (SendDocuments store max_retries docs)) \<le> Suc max_retries \<and>
     (length (snd (SendDocuments store max_retries docs)) = Suc max_retries \<or>
      retriable (failed_of store (last (snd (SendDocuments store max_retries docs)))) = []) \<and>
     (\<forall>k. Suc k < length (snd (SendDocuments store max_retries docs)) \<longrightarrow>
        retriable (failed_of store (snd (SendDocuments store max_retries docs) ! k)) \<noteq> [] \<and>
        snd (SendDocuments store max_retries docs) ! Suc k =
          (Suc (fst (snd (SendDocuments store max_retries docs) ! k)),
           map DocErrDocument
             (retriable (failed_of store (snd (SendDocuments store max_retries docs) ! k)))) \<and>
        (\<forall>d. dataloss_only (failed_of store (snd (SendDocuments store max_retries docs) ! k)) d
           \<longrightarrow> d \<notin> set (snd (snd (SendDocuments store max_retries docs) ! Suc k)))) \<and>
     fst (SendDocuments store max_retries docs) =
       Inr (retriable (failed_of store (last (snd (SendDocuments store max_retries docs)))) @
            concat (map (\<lambda>c. dataloss (failed_of store c))
              (snd (SendDocuments store max_retries docs))))"
    unfolding sd fst_conv snd_conv by blast
qed

theorem C7_retrier_witness:
  "snd (SendDocuments dropping_store 2 testDocs) =
     [(1, testDocs), (2, [newTestDocument ''1'']), (3, [newTestDocument ''1''])] \<and>
   fst (SendDocuments dropping_store 2 testDocs) =
     Inr (failedDocs SeverityRetriable @ failedDocs SeverityDataLoss) \<and>
   snd (SendDocuments lossy_store 2 testDocs) = [(1, testDocs), (2, [newTestDocument ''1''])] \<and>
   dataloss_only (failed_of lossy_store (1, testDocs)) (newTestDocument ''2'') \<and>
   newTestDocument ''2'' \<notin> set (snd (snd (SendDocuments lossy_store 2 testDocs) ! Suc 0)) \<and>
   fst (SendDocuments lossy_store 2 testDocs) =
     Inr [\<lparr>DocErrDocument = newTestDocument ''2'', DocErrSeverity = SeverityDataLoss,
           DocErrError = ''oh noes''\<rparr>]"
proof -
  let ?calls = "snd (SendDocuments dropping_store 2 testDocs)"
  let ?lcalls = "snd (SendDocuments lossy_store 2 testDocs)"
  have ok: "\<forall>j ds. 1 \<le> j \<and> j \<le> Suc 2 \<longrightarrow> (\<exists>failed. dropping_store j ds = Inr failed)"
  proof (intro allI impI)
    fix j :: nat and ds :: "Document list"
    assume "1 \<le> j \<and> j \<le> Suc 2"
    then have "j = 1 \<or> j = 2 \<or> j = 3" by arith
    then show "\<exists>failed. dropping_store j ds = Inr failed"
      by (auto simp: dropping_store_def)
  qed
  have lok: "\<forall>j ds. 1 \<le> j \<and> j \<le> Suc 2 \<longrightarrow> (\<exists>failed. lossy_store j ds = Inr failed)"
    by (simp add: lossy_store_def)
  have calls: "?calls = [(1, testDocs), (2, [newTestDocument ''1'']), (3, [newTestDocument ''1''])]"
    by (simp add: SendDocuments_def dropping_store_def failedDocs_def retriable_def dataloss_def
        numeral_2_eq_2)
  have lcalls: "?lcalls = [(1, testDocs), (2, [newTestDocument ''1''])]"
    by (simp add: SendDocuments_def lossy_store_def failedDocs_def retriable_def dataloss_def
        numeral_2_eq_2)
  have parts: "retriable (failed_of dropping_store (3, [newTestDocument ''1''])) =
      failedDocs SeverityRetriable"
    "concat (map (\<lambda>c. dataloss (failed_of dropping_store c))
       [(1, testDocs), (2, [newTestDocument ''1'']), (3, [newTestDocument ''1''])]) =
      failedDocs SeverityDataLoss"
    by (simp_all add: failed_of_def dropping_store_def failedDocs_def retriable_def dataloss_def)
  have lparts: "retriable (failed_of lossy_store (2, [newTestDocument ''1''])) = []"
    "concat (map (\<lambda>c. dataloss (failed_of lossy_store c))
       [(1, testDocs), (2, [newTestDocument ''1''])]) =
      [\<lparr>DocErrDocument = newTestDocument ''2'', DocErrSeverity = SeverityDataLoss,
        DocErrError = ''oh noes''\<rparr>]"
    "dataloss_only (failed_of lossy_store (1, testDocs)) (newTestDocument ''2'')"
    by (simp_all add: failed_of_def lossy_store_def failedDocs_def retriable_def dataloss_def
        dataloss_only_def newTestDocument_def)
  from C7_retrier [where store = dropping_store and max_retries = 2 and docs = testDocs] ok
  have r1: "fst (SendDocuments dropping_store 2 testDocs) =
       Inr (retriable (failed_of dropping_store (last ?calls)) @
            concat (map (\<lambda>c. dataloss (failed_of dropping_store c)) ?calls))"
    by blast
  from C7_retrier [where store = lossy_store and max_retries = 2 and docs = testDocs] lok
  have r2: "fst (SendDocuments lossy_store 2 testDocs) =
       Inr (retriable (failed_of lossy_store (last ?lcalls)) @
            concat (map (\<lambda>c. dataloss (failed_of lossy_store c)) ?lcalls))"
    and r3: "\<forall>k. Suc k < length ?lcalls \<longrightarrow>
        (\<forall>d. dataloss_only (failed_of lossy_store (?lcalls ! k)) d
           \<longrightarrow> d \<notin> set (snd (?lcalls ! Suc k)))"
    by blast+
  from r3 have r4: "Suc 0 < length ?lcalls \<longrightarrow>
      dataloss_only (failed_of lossy_store (?lcalls ! 0)) (newTestDocument ''2'') \<longrightarrow>
      newTestDocument ''2'' \<notin> set (snd (?lcalls ! Suc 0))"
    by blast
  have r5: "newTestDocument ''2'' \<notin> set (snd (?lcalls ! Suc 0))"
    using r4 lparts(3) by (simp add: lcalls)
  from calls lcalls parts lparts r1 r2 r5 show ?thesis
    by simp
qed

end
